theory Spec2Isabelle
  imports Main "HOL-Library.AList"
begin

section \<open>The host's objects, as ConditionManager.js reads them\<close>

text \<open>
  ConditionManager.js owns no data of its own: it reads actors, tokens and documents of the
  hosting game engine through optional chaining, and writes one flag namespace. The records
  below hold exactly the properties the source touches. A property that may be missing is an
  \<open>option\<close>; a host method is a function that either returns or throws, so its result is
  \<open>error + bool\<close>, where the boolean is the truthiness of the returned JavaScript value
  (every use in the source is a truthiness test or an operand of \<open>||\<close>).
\<close>

datatype error = TypeError | HostError

text \<open>An element of \<open>actor.conditions\<close>: the scan compares \<open>slug\<close> and \<open>key\<close> with \<open>===\<close>.\<close>

record Condition =
  slug :: "string option"
  key :: "string option"

text \<open>
  \<open>actor.conditions\<close>: \<open>conditions_has\<close> is its \<open>has\<close> method, when it has one.
  \<open>entries\<close> is what \<open>some\<close> iterates over, in order; it is \<open>None\<close> when the object has
  no callable \<open>some\<close> (calling it raises a TypeError), and an entry \<open>None\<close> is a null element,
  on which the callback's read of \<open>condition.slug\<close> raises a TypeError.
\<close>

record Conditions =
  conditions_has :: "(string \<Rightarrow> error + bool) option"
  entries :: "Condition option list option"

text \<open>
  An actor. \<open>system_conditions_active name\<close> is \<open>system?.conditions?.[name]?.active\<close>
  and \<open>system_perception_senses name\<close> is \<open>system?.perception?.senses?.[name]\<close>: \<open>None\<close>
  when some link of the chain is missing, else the truthiness of the value.
  \<open>perception_senses_has\<close> is the \<open>has\<close> method of \<open>perception?.senses\<close>.
\<close>

record Actor =
  actor_id :: string
  hasCondition :: "(string \<Rightarrow> error + bool) option"
  system_conditions_active :: "string \<rightharpoonup> bool"
  conditions :: "Conditions option"
  perception_senses_has :: "(string \<Rightarrow> error + bool) option"
  system_perception_senses :: "string \<rightharpoonup> bool"

text \<open>One entry of the invisibility flag record: \<open>{ wasVisible: boolean }\<close>.\<close>

record VisibilityFlag =
  wasVisible :: bool

text \<open>
  The flag record is a plain JavaScript object keyed by observer id. The association list
  holds its own enumerable properties: the set of names \<open>Object.keys\<close> lists is
  \<open>fst ` set\<close> of the list, so the object has no own key exactly when the list is empty.
  (The order in which \<open>Object.keys\<close> lists the names is not modelled; the source only takes
  the number of keys.)
\<close>

type_synonym InvisibilityFlags = "(string \<times> VisibilityFlag) list"

text \<open>
  The assignment \<open>object[name] = value\<close> on such an object, as line 247 makes it with a
  value that is an object. Every name creates or replaces an own property, but
  \<open>__proto__\<close>: that name is the accessor of \<open>Object.prototype\<close>, the assignment sets the
  prototype of the object and creates no own property.
\<close>

definition assign_property ::
  "string \<Rightarrow> VisibilityFlag \<Rightarrow> InvisibilityFlags \<Rightarrow> InvisibilityFlags" where
  "assign_property name v object =
     (if name = ''__proto__'' then object else AList.update name v object)"

text \<open>
  The value of \<open>document.id\<close>, and of the chain \<open>token?.document?.id\<close>: undefined (the
  property, or a link of the chain, is missing), null (a document that has no id yet), or
  a string.
\<close>

datatype DocumentId = IdUndefined | IdNull | IdString string

text \<open>
  A token document: \<open>doc_id\<close> is \<open>document.id\<close>, \<open>flags_invisibility\<close> is
  \<open>flags?.['pf2e-visioner']?.invisibility\<close>, with \<open>None\<close> when the namespace is absent.
\<close>

record TokenDocument =
  doc_id :: DocumentId
  flags_invisibility :: "InvisibilityFlags option"

record Token =
  actor :: "Actor option"
  document :: "TokenDocument option"

section \<open>The four accessor strategies\<close>

text \<open>\<open>a?.hasCondition?.(name)\<close>: the direct predicate. A throw of the host method propagates.\<close>

definition hasConditionMethod :: "Actor option \<Rightarrow> string \<Rightarrow> error + bool" where
  "hasConditionMethod a name =
     (case a of None \<Rightarrow> Inr False
      | Some ac \<Rightarrow> (case hasCondition ac of None \<Rightarrow> Inr False | Some f \<Rightarrow> f name))"

text \<open>\<open>a?.system?.conditions?.[name]?.active\<close>: the nested state flag, a plain property read.\<close>

definition systemConditionActive :: "Actor option \<Rightarrow> string \<Rightarrow> bool" where
  "systemConditionActive a name =
     (case a of None \<Rightarrow> False
      | Some ac \<Rightarrow> (case system_conditions_active ac name of None \<Rightarrow> False | Some b \<Rightarrow> b))"

text \<open>\<open>a?.conditions?.has?.(name)\<close>: the membership test. A throw of the host method propagates.\<close>

definition conditionsHas :: "Actor option \<Rightarrow> string \<Rightarrow> error + bool" where
  "conditionsHas a name =
     (case a of None \<Rightarrow> Inr False
      | Some ac \<Rightarrow>
          (case conditions ac of None \<Rightarrow> Inr False
           | Some c \<Rightarrow> (case conditions_has c of None \<Rightarrow> Inr False | Some f \<Rightarrow> f name)))"

text \<open>
  \<open>conditions.some((condition) => condition.slug === name || condition.key === name)\<close>:
  the first matching entry ends the scan with true; a null entry met before that throws.
\<close>

fun some_condition :: "string \<Rightarrow> Condition option list \<Rightarrow> error + bool" where
  "some_condition name [] = Inr False"
| "some_condition name (None # cs) = Inl TypeError"
| "some_condition name (Some c # cs) =
     (if slug c = Some name \<or> key c = Some name then Inr True else some_condition name cs)"

text \<open>
  The guarded scan: \<open>let conditionsCollectionHas = false; if (a?.conditions) { try { ... }
  catch (e) {} }\<close>. Whatever the scan throws leaves the variable false.
\<close>

definition conditionsCollectionHas :: "Actor option \<Rightarrow> string \<Rightarrow> bool" where
  "conditionsCollectionHas a name =
     (case a of None \<Rightarrow> False
      | Some ac \<Rightarrow>
          (case conditions ac of None \<Rightarrow> False
           | Some c \<Rightarrow>
               (case entries c of None \<Rightarrow> False
                | Some es \<Rightarrow> (case some_condition name es of Inl e \<Rightarrow> False | Inr b \<Rightarrow> b))))"

section \<open>The condition probes\<close>

text \<open>
  Each probe evaluates the four strategies in source order, all of them (they are bound to
  constants before the \<open>||\<close>), and returns their disjunction.
\<close>

definition isBlinded :: "Token \<Rightarrow> error + bool" where
  "isBlinded observer =
     (case hasConditionMethod (actor observer) ''blinded'' of Inl e \<Rightarrow> Inl e
      | Inr viaMethod \<Rightarrow>
          (case conditionsHas (actor observer) ''blinded'' of Inl e \<Rightarrow> Inl e
           | Inr viaHas \<Rightarrow>
               Inr (viaMethod \<or> systemConditionActive (actor observer) ''blinded'' \<or> viaHas
                    \<or> conditionsCollectionHas (actor observer) ''blinded'')))"

definition isDazzled :: "Token \<Rightarrow> error + bool" where
  "isDazzled observer =
     (case hasConditionMethod (actor observer) ''dazzled'' of Inl e \<Rightarrow> Inl e
      | Inr viaMethod \<Rightarrow>
          (case conditionsHas (actor observer) ''dazzled'' of Inl e \<Rightarrow> Inl e
           | Inr viaHas \<Rightarrow>
               Inr (viaMethod \<or> systemConditionActive (actor observer) ''dazzled'' \<or> viaHas
                    \<or> conditionsCollectionHas (actor observer) ''dazzled'')))"

definition isDeafened :: "Token \<Rightarrow> error + bool" where
  "isDeafened observer =
     (case hasConditionMethod (actor observer) ''deafened'' of Inl e \<Rightarrow> Inl e
      | Inr viaMethod \<Rightarrow>
          (case conditionsHas (actor observer) ''deafened'' of Inl e \<Rightarrow> Inl e
           | Inr viaHas \<Rightarrow>
               Inr (viaMethod \<or> systemConditionActive (actor observer) ''deafened'' \<or> viaHas
                    \<or> conditionsCollectionHas (actor observer) ''deafened'')))"

text \<open>The local \<open>hasInvisible\<close> of \<open>isInvisibleTo\<close> (lines 126 to 143).\<close>

definition hasInvisible :: "Token \<Rightarrow> error + bool" where
  "hasInvisible target =
     (case hasConditionMethod (actor target) ''invisible'' of Inl e \<Rightarrow> Inl e
      | Inr viaMethod \<Rightarrow>
          (case conditionsHas (actor target) ''invisible'' of Inl e \<Rightarrow> Inl e
           | Inr viaHas \<Rightarrow>
               Inr (viaMethod \<or> systemConditionActive (actor target) ''invisible'' \<or> viaHas
                    \<or> conditionsCollectionHas (actor target) ''invisible'')))"

text \<open>\<open>observer.actor?.perception?.senses?.has?.('see-invisibility')\<close>.\<close>

definition sensesHas :: "Actor option \<Rightarrow> string \<Rightarrow> error + bool" where
  "sensesHas a name =
     (case a of None \<Rightarrow> Inr False
      | Some ac \<Rightarrow> (case perception_senses_has ac of None \<Rightarrow> Inr False | Some f \<Rightarrow> f name))"

text \<open>\<open>observer.actor?.system?.perception?.senses?.['see-invisibility']\<close>.\<close>

definition systemSense :: "Actor option \<Rightarrow> string \<Rightarrow> bool" where
  "systemSense a name =
     (case a of None \<Rightarrow> False
      | Some ac \<Rightarrow> (case system_perception_senses ac name of None \<Rightarrow> False | Some b \<Rightarrow> b))"

text \<open>The local \<open>canSeeInvisible\<close>: the second shape is read only when the first is falsy.\<close>

definition canSeeInvisible :: "Token \<Rightarrow> error + bool" where
  "canSeeInvisible observer =
     (case sensesHas (actor observer) ''see-invisibility'' of Inl e \<Rightarrow> Inl e
      | Inr viaHas \<Rightarrow>
          Inr (if viaHas then True else systemSense (actor observer) ''see-invisibility''))"

definition isInvisibleTo :: "Token \<Rightarrow> Token \<Rightarrow> error + bool" where
  "isInvisibleTo observer target =
     (case hasInvisible target of Inl e \<Rightarrow> Inl e
      | Inr invisible \<Rightarrow>
          (if invisible
           then (case canSeeInvisible observer of Inl e \<Rightarrow> Inl e | Inr sees \<Rightarrow> Inr (\<not> sees))
           else Inr False))"

section \<open>Invisibility state resolution\<close>

text \<open>
  An argument of \<open>getInvisibilityState\<close> may be null or undefined (\<open>None\<close>), may lack a
  document, and its document may lack an id: \<open>observer?.document?.id\<close>.
\<close>

definition document_id :: "Token option \<Rightarrow> DocumentId" where
  "document_id t =
     (case t of None \<Rightarrow> IdUndefined
      | Some tok \<Rightarrow> (case document tok of None \<Rightarrow> IdUndefined | Some d \<Rightarrow> doc_id d))"

text \<open>Truthiness of an id: undefined, null and the empty string are falsy.\<close>

definition truthy_id :: "DocumentId \<Rightarrow> bool" where
  "truthy_id i = (case i of IdUndefined \<Rightarrow> False | IdNull \<Rightarrow> False | IdString s \<Rightarrow> s \<noteq> [])"

text \<open>An id used as a property name: undefined and null are the names of their spelling.\<close>

definition property_key :: "DocumentId \<Rightarrow> string" where
  "property_key i =
     (case i of IdUndefined \<Rightarrow> ''undefined'' | IdNull \<Rightarrow> ''null'' | IdString s \<Rightarrow> s)"

text \<open>
  \<open>(target.document.flags?.['pf2e-visioner']?.invisibility || {})[observerId]?.wasVisible\<close>,
  read once the target is known to have a document.
\<close>

definition wasVisibleWhenInvisible :: "Token option \<Rightarrow> string \<Rightarrow> bool" where
  "wasVisibleWhenInvisible target observerId =
     (case target of None \<Rightarrow> False
      | Some tok \<Rightarrow>
          (case document tok of None \<Rightarrow> False
           | Some d \<Rightarrow>
               (let invisibilityFlags = (case flags_invisibility d of None \<Rightarrow> [] | Some fl \<Rightarrow> fl)
                in case map_of invisibilityFlags observerId of
                     None \<Rightarrow> False
                   | Some entry \<Rightarrow> wasVisible entry)))"

text \<open>
  \<open>hasSneakOverride\<close> is the caller's asynchronous predicate: awaiting it either gives a value,
  of which the source takes the truthiness, or throws. The result of \<open>getInvisibilityState\<close>
  is a pair: the calls it made to the predicate, in order, and what the returned promise
  settles to (\<open>Inr\<close> the state, \<open>Inl\<close> a rejection).
\<close>

type_synonym SneakOverride = "Token option \<Rightarrow> Token option \<Rightarrow> error + bool"

definition sneakBranch ::
  "Token option \<Rightarrow> Token option \<Rightarrow> SneakOverride
     \<Rightarrow> (Token option \<times> Token option) list \<times> (error + string)" where
  "sneakBranch observer target hasSneakOverride =
     ([(observer, target)],
      (case hasSneakOverride observer target of
         Inl e \<Rightarrow> Inl e
       | Inr sneaked \<Rightarrow> Inr (if sneaked then ''undetected'' else ''hidden'')))"

definition getInvisibilityState ::
  "Token option \<Rightarrow> Token option \<Rightarrow> SneakOverride \<Rightarrow> bool
     \<Rightarrow> (Token option \<times> Token option) list \<times> (error + string)" where
  "getInvisibilityState observer target hasSneakOverride canSeeNormally =
     (let observerId = document_id observer;
          targetId = document_id target
      in if \<not> truthy_id observerId \<or> \<not> truthy_id targetId then ([], Inr ''undetected'')
         else if canSeeNormally then sneakBranch observer target hasSneakOverride
         else if wasVisibleWhenInvisible target (property_key observerId)
              then sneakBranch observer target hasSneakOverride
         else ([], Inr ''undetected''))"

section \<open>Invisibility-transition bookkeeping\<close>

text \<open>
  The scene: \<open>canvas.tokens.placeables\<close>. A token object is its position in that list, so
  that \<open>otherToken === token\<close> is equality of positions and two tokens may show the same id.
  \<open>flag_writes\<close> is the sequence of calls made to the host's flag store.
\<close>

datatype FlagWrite = SetFlag nat InvisibilityFlags | UnsetFlag nat

record Canvas =
  placeables :: "Token list"
  flag_writes :: "FlagWrite list"

text \<open>
  The external visibility map of a token, \<open>getVisibilityMap(token)\<close> of the module's api:
  what the property read \<open>visibilityMap[observerId]\<close> gives, \<open>None\<close> when that is
  undefined. The source compares the value with two strings only, so a value that is not a
  string stands here as any string other than those two.
\<close>

type_synonym VisibilityMap = "string \<rightharpoonup> string"

text \<open>\<open>visibilityMap[observerId] || 'observed'\<close>: a missing or empty entry reads as observed.\<close>

definition currentVisibility :: "VisibilityMap \<Rightarrow> string \<Rightarrow> string" where
  "currentVisibility visibilityMap observerId =
     (case visibilityMap observerId of
        None \<Rightarrow> ''observed''
      | Some s \<Rightarrow> if s = [] then ''observed'' else s)"

text \<open>
  The loop of the recording routine over \<open>canvas.tokens.placeables\<close>, each token with its
  position. Reading \<open>otherToken.document.id\<close> of a token without document is a TypeError.
\<close>

fun recordLoop ::
  "VisibilityMap \<Rightarrow> nat \<Rightarrow> (nat \<times> Token) list \<Rightarrow> InvisibilityFlags
     \<Rightarrow> error + InvisibilityFlags" where
  "recordLoop visibilityMap token [] invisibilityFlags = Inr invisibilityFlags"
| "recordLoop visibilityMap token ((other, otherToken) # rest) invisibilityFlags =
     (if other = token \<or> actor otherToken = None
      then recordLoop visibilityMap token rest invisibilityFlags
      else (case document otherToken of
              None \<Rightarrow> Inl TypeError
            | Some d \<Rightarrow>
                (let observerId = property_key (doc_id d);
                     cur = currentVisibility visibilityMap observerId
                 in if cur = ''observed'' \<or> cur = ''concealed''
                    then recordLoop visibilityMap token rest
                           (assign_property observerId \<lparr>wasVisible = True\<rparr> invisibilityFlags)
                    else recordLoop visibilityMap token rest invisibilityFlags)))"

text \<open>
  Modelled from the spec: the host's per-document flag store is not part of the source. It is
  the collaborator of the spec's section 6, "a per-document flag store supporting namespaced
  get/set/unset": a set replaces the namespace by the value given (the spec's section 4.1:
  overwritten, not merged), an unset removes it. What the source itself contributes is the
  dereference \<open>token.document\<close>, a TypeError on a token without document; a position outside
  the scene denotes no object.
\<close>

definition setFlag :: "nat \<Rightarrow> InvisibilityFlags \<Rightarrow> Canvas \<Rightarrow> error + Canvas" where
  "setFlag token v c =
     (if length (placeables c) \<le> token then Inl TypeError
      else (case document (placeables c ! token) of
              None \<Rightarrow> Inl TypeError
            | Some d \<Rightarrow>
                Inr (c\<lparr>placeables :=
                         (placeables c)[token :=
                            (placeables c ! token)
                              \<lparr>document := Some (d\<lparr>flags_invisibility := Some v\<rparr>)\<rparr>],
                       flag_writes := flag_writes c @ [SetFlag token v]\<rparr>)))"

definition unsetFlag :: "nat \<Rightarrow> Canvas \<Rightarrow> error + Canvas" where
  "unsetFlag token c =
     (if length (placeables c) \<le> token then Inl TypeError
      else (case document (placeables c ! token) of
              None \<Rightarrow> Inl TypeError
            | Some d \<Rightarrow>
                Inr (c\<lparr>placeables :=
                         (placeables c)[token :=
                            (placeables c ! token)
                              \<lparr>document := Some (d\<lparr>flags_invisibility := None\<rparr>)\<rparr>],
                       flag_writes := flag_writes c @ [UnsetFlag token]\<rparr>)))"

text \<open>\<open>#recordVisibilityBeforeInvisibility(token)\<close>: one write, and only of a non-empty record.\<close>

definition recordVisibilityBeforeInvisibility ::
  "(Token \<Rightarrow> VisibilityMap) \<Rightarrow> nat \<Rightarrow> Canvas \<Rightarrow> error + Canvas" where
  "recordVisibilityBeforeInvisibility getVisibilityMap token c =
     (if length (placeables c) \<le> token then Inl TypeError
      else (let visibilityMap = getVisibilityMap (placeables c ! token)
            in case recordLoop visibilityMap token (enumerate 0 (placeables c)) [] of
                 Inl e \<Rightarrow> Inl e
               | Inr invisibilityFlags \<Rightarrow>
                   if invisibilityFlags \<noteq> [] then setFlag token invisibilityFlags c
                   else Inr c))"

text \<open>\<open>#clearInvisibilityFlags(token)\<close>.\<close>

definition clearInvisibilityFlags :: "nat \<Rightarrow> Canvas \<Rightarrow> error + Canvas" where
  "clearInvisibilityFlags token c = unsetFlag token c"

text \<open>
  The check of \<open>handleInvisibilityChange\<close> (lines 213 to 216): three accessors joined by
  \<open>||\<close>, each evaluated only when those before it were falsy.
\<close>

definition hasInvisibility :: "Actor \<Rightarrow> error + bool" where
  "hasInvisibility a =
     (case hasConditionMethod (Some a) ''invisible'' of
        Inl e \<Rightarrow> Inl e
      | Inr viaMethod \<Rightarrow>
          if viaMethod then Inr True
          else if systemConditionActive (Some a) ''invisible'' then Inr True
          else conditionsHas (Some a) ''invisible'')"

text \<open>\<open>token.actor?.id === actor.id\<close>.\<close>

definition boundTo :: "Actor \<Rightarrow> Token \<Rightarrow> bool" where
  "boundTo a t = (case actor t of None \<Rightarrow> False | Some ta \<Rightarrow> actor_id ta = actor_id a)"

text \<open>The loop over the actor's tokens; the check is made anew for each token.\<close>

fun handleLoop ::
  "(Token \<Rightarrow> VisibilityMap) \<Rightarrow> Actor \<Rightarrow> nat list \<Rightarrow> Canvas \<Rightarrow> error + Canvas" where
  "handleLoop getVisibilityMap a [] c = Inr c"
| "handleLoop getVisibilityMap a (token # tokens) c =
     (case hasInvisibility a of
        Inl e \<Rightarrow> Inl e
      | Inr invisible \<Rightarrow>
          (case (if invisible then recordVisibilityBeforeInvisibility getVisibilityMap token c
                 else clearInvisibilityFlags token c) of
             Inl e \<Rightarrow> Inl e
           | Inr c' \<Rightarrow> handleLoop getVisibilityMap a tokens c'))"

definition handleInvisibilityChange ::
  "(Token \<Rightarrow> VisibilityMap) \<Rightarrow> Actor \<Rightarrow> Canvas \<Rightarrow> error + Canvas" where
  "handleInvisibilityChange getVisibilityMap a c =
     (let tokens = filter (\<lambda>i. boundTo a (placeables c ! i)) [0..<length (placeables c)]
      in handleLoop getVisibilityMap a tokens c)"

section \<open>Notions used to state the bookkeeping results\<close>

text \<open>The token a call to the flag store addresses, and the calls made on one token.\<close>

fun write_token :: "FlagWrite \<Rightarrow> nat" where
  "write_token (SetFlag token v) = token"
| "write_token (UnsetFlag token) = token"

definition writes_to :: "nat \<Rightarrow> Canvas \<Rightarrow> FlagWrite list" where
  "writes_to token c = filter (\<lambda>w. write_token w = token) (flag_writes c)"

text \<open>
  The names that lines 243 to 247 make an own key of the record: the state read at line 243
  passes the test of line 246, and the name is not \<open>__proto__\<close>. Then the property name
  under which a token with a live actor is looked up and recorded.
\<close>

definition recordable :: "VisibilityMap \<Rightarrow> string \<Rightarrow> bool" where
  "recordable visibilityMap k =
     (k \<noteq> ''__proto__''
      \<and> (currentVisibility visibilityMap k = ''observed''
           \<or> currentVisibility visibilityMap k = ''concealed''))"

definition observer_key :: "Token \<Rightarrow> string option" where
  "observer_key t =
     (case actor t of None \<Rightarrow> None
      | Some a \<Rightarrow> (case document t of None \<Rightarrow> None | Some d \<Rightarrow> Some (property_key (doc_id d))))"

text \<open>The keys the recording routine of token \<open>i\<close> collects over the scene \<open>ps\<close>.\<close>

definition seenKeys :: "VisibilityMap \<Rightarrow> nat \<Rightarrow> Token list \<Rightarrow> string set" where
  "seenKeys visibilityMap i ps =
     {k. recordable visibilityMap k \<and> (\<exists>j<length ps. j \<noteq> i \<and> observer_key (ps ! j) = Some k)}"

text \<open>
  Two states of the scene that differ in stored flags only: the same tokens, actors and
  document ids.
\<close>

definition sameScene :: "Token list \<Rightarrow> Token list \<Rightarrow> bool" where
  "sameScene ps qs =
     (length qs = length ps
      \<and> (\<forall>j<length ps. actor (qs ! j) = actor (ps ! j)
            \<and> map_option doc_id (document (qs ! j)) = map_option doc_id (document (ps ! j))))"

text \<open>Every token with an actor has a document.\<close>

definition live_docs :: "Token list \<Rightarrow> bool" where
  "live_docs ps = (\<forall>t\<in>set ps. actor t \<noteq> None \<longrightarrow> document t \<noteq> None)"

text \<open>
  What the recording routine leaves on token \<open>i\<close>, from canvas \<open>c\<close> to canvas \<open>c'\<close>:
  nothing when no key is collected, else one write of a record with exactly those keys.
\<close>

definition recorded :: "(Token \<Rightarrow> VisibilityMap) \<Rightarrow> Canvas \<Rightarrow> Canvas \<Rightarrow> nat \<Rightarrow> bool" where
  "recorded g c c' i =
     (if seenKeys (g (placeables c ! i)) i (placeables c) = {}
      then placeables c' ! i = placeables c ! i \<and> writes_to i c' = writes_to i c
      else (\<exists>d fl. document (placeables c' ! i) = Some d \<and> flags_invisibility d = Some fl
              \<and> fst ` set fl = seenKeys (g (placeables c ! i)) i (placeables c)
              \<and> snd ` set fl \<subseteq> {\<lparr>wasVisible = True\<rparr>}
              \<and> writes_to i c' = writes_to i c @ [SetFlag i fl]))"

section \<open>Example objects\<close>

text \<open>Small host objects, used to run the definitions on concrete inputs.\<close>

definition plain_actor :: "string \<Rightarrow> Actor" where
  "plain_actor i =
     \<lparr>actor_id = i, hasCondition = None, system_conditions_active = Map.empty,
      conditions = None, perception_senses_has = None,
      system_perception_senses = Map.empty\<rparr>"

definition scene_token :: "Actor \<Rightarrow> string \<Rightarrow> InvisibilityFlags option \<Rightarrow> Token" where
  "scene_token a tid fl =
     \<lparr>actor = Some a, document = Some \<lparr>doc_id = IdString tid, flags_invisibility = fl\<rparr>\<rparr>"

text \<open>A host method that throws, and one that reports exactly the name \<open>c\<close>.\<close>

definition throwing :: "string \<Rightarrow> error + bool" where
  "throwing name = Inl HostError"

definition reporting :: "string \<Rightarrow> string \<Rightarrow> error + bool" where
  "reporting c name = Inr (name = c)"

definition listed :: "string \<Rightarrow> Condition option" where
  "listed c = Some \<lparr>slug = Some c, key = None\<rparr>"

text \<open>A sneak predicate that rejects, and one that resolves to a constant.\<close>

definition sneak_rejects :: SneakOverride where
  "sneak_rejects observer target = Inl HostError"

definition sneak_resolves :: "bool \<Rightarrow> SneakOverride" where
  "sneak_resolves b observer target = Inr b"

text \<open>
  An invisible target, seen through the nested state flag only, and observers that report
  the see-invisibility sense through one accessor shape each.
\<close>

definition ghost_actor :: Actor where
  "ghost_actor = (plain_actor ''ghost'') \<lparr>system_conditions_active := [''invisible'' \<mapsto> True]\<rparr>"

definition invisible_target :: Token where
  "invisible_target = scene_token ghost_actor ''tgt'' None"

definition plain_observer :: Token where
  "plain_observer = scene_token (plain_actor ''watcher'') ''obs'' None"

definition seer_by_method :: Token where
  "seer_by_method =
     scene_token ((plain_actor ''watcher'')
       \<lparr>perception_senses_has := Some (reporting ''see-invisibility'')\<rparr>) ''obs'' None"

definition seer_by_field :: Token where
  "seer_by_field =
     scene_token ((plain_actor ''watcher'')
       \<lparr>system_perception_senses := [''see-invisibility'' \<mapsto> True]\<rparr>) ''obs'' None"

text \<open>
  An observer whose senses' membership test throws while the nested senses field reports
  see-invisibility.
\<close>

definition seer_throwing :: Token where
  "seer_throwing =
     scene_token ((plain_actor ''watcher'')
       \<lparr>perception_senses_has := Some throwing,
         system_perception_senses := [''see-invisibility'' \<mapsto> True]\<rparr>) ''obs'' None"

text \<open>
  Actors whose invisible condition shows through the direct predicate only, and through the
  membership test only.
\<close>

definition method_invisible_actor :: Actor where
  "method_invisible_actor = (plain_actor ''ghost'') \<lparr>hasCondition := Some (reporting ''invisible'')\<rparr>"

definition member_invisible_actor :: Actor where
  "member_invisible_actor =
     (plain_actor ''ghost'')
       \<lparr>conditions := Some \<lparr>conditions_has = Some (reporting ''invisible''), entries = Some []\<rparr>\<rparr>"

text \<open>An actor whose invisible condition shows in the conditions collection only.\<close>

definition listed_invisible_actor :: Actor where
  "listed_invisible_actor =
     (plain_actor ''ghost'')
       \<lparr>conditions := Some \<lparr>conditions_has = None, entries = Some [listed ''invisible'']\<rparr>\<rparr>"

text \<open>An actor whose collection scan throws at once, and whose nested flag says blinded.\<close>

definition broken_scan_actor :: Actor where
  "broken_scan_actor =
     (plain_actor ''a'')
       \<lparr>system_conditions_active := [''blinded'' \<mapsto> True],
         conditions := Some \<lparr>conditions_has = None, entries = Some [None, listed ''blinded'']\<rparr>\<rparr>"

text \<open>
  An actor whose conditions object has a membership test that reports deafened, and no
  \<open>some\<close> to scan with.
\<close>

definition scanless_actor :: Actor where
  "scanless_actor =
     (plain_actor ''a'')
       \<lparr>conditions := Some \<lparr>conditions_has = Some (reporting ''deafened''), entries = None\<rparr>\<rparr>"

text \<open>
  Scenes: the invisible target with one observer; the same with a hidden token, a token
  without actor, a token that sees it concealed and a token whose id is \<open>__proto__\<close>; the
  target with that last token only; and a scene whose tokens carry flags.
  The visibility maps do not depend on the token.
\<close>

definition two_token_scene :: Canvas where
  "two_token_scene = \<lparr>placeables = [invisible_target, plain_observer], flag_writes = []\<rparr>"

definition crowded_scene :: Canvas where
  "crowded_scene =
     \<lparr>placeables =
        [invisible_target, plain_observer, scene_token (plain_actor ''rogue'') ''hid'' None,
         \<lparr>actor = None, document = Some \<lparr>doc_id = IdString ''prop'', flags_invisibility = None\<rparr>\<rparr>,
         scene_token (plain_actor ''scout'') ''dim'' None,
         scene_token (plain_actor ''imp'') ''__proto__'' None],
      flag_writes = []\<rparr>"

definition proto_scene :: Canvas where
  "proto_scene =
     \<lparr>placeables = [invisible_target, scene_token (plain_actor ''imp'') ''__proto__'' None],
      flag_writes = []\<rparr>"

definition flagged_scene :: Canvas where
  "flagged_scene =
     \<lparr>placeables =
        [scene_token (plain_actor ''ghost'') ''tgt'' (Some [(''obs'', \<lparr>wasVisible = True\<rparr>)]),
         scene_token (plain_actor ''watcher'') ''obs'' (Some [(''tgt'', \<lparr>wasVisible = True\<rparr>)]),
         scene_token (plain_actor ''ghost'') ''twin'' None],
      flag_writes = []\<rparr>"

definition no_visibility_map :: "Token \<Rightarrow> VisibilityMap" where
  "no_visibility_map token = Map.empty"

definition hiding_map :: "Token \<Rightarrow> VisibilityMap" where
  "hiding_map token = [''obs'' \<mapsto> ''hidden'', ''hid'' \<mapsto> ''undetected'']"

definition mixed_map :: "Token \<Rightarrow> VisibilityMap" where
  "mixed_map token = [''hid'' \<mapsto> ''hidden'', ''dim'' \<mapsto> ''concealed'']"

section \<open>The condition probes are a disjunction of four strategies\<close>

lemma probe_unfold:
  assumes "(probe, name) \<in> {(isBlinded, ''blinded''), (isDazzled, ''dazzled''),
                             (isDeafened, ''deafened''), (hasInvisible, ''invisible'')}"
  shows "probe t =
     (case hasConditionMethod (actor t) name of Inl e \<Rightarrow> Inl e
      | Inr viaMethod \<Rightarrow>
          (case conditionsHas (actor t) name of Inl e \<Rightarrow> Inl e
           | Inr viaHas \<Rightarrow>
               Inr (viaMethod \<or> systemConditionActive (actor t) name \<or> viaHas
                    \<or> conditionsCollectionHas (actor t) name)))"
  using assms by (auto simp add: isBlinded_def isDazzled_def isDeafened_def hasInvisible_def)

lemma missing_actor_negative:
  "hasConditionMethod None name = Inr False" "conditionsHas None name = Inr False"
  "\<not> systemConditionActive None name" "\<not> conditionsCollectionHas None name"
  by (simp_all add: hasConditionMethod_def conditionsHas_def systemConditionActive_def
        conditionsCollectionHas_def)

lemma missing_method_negative:
  "hasCondition ac = None \<Longrightarrow> hasConditionMethod (Some ac) name = Inr False"
  by (simp add: hasConditionMethod_def)

lemma missing_has_negative:
  "conditions ac = Some c \<Longrightarrow> conditions_has c = None
     \<Longrightarrow> conditionsHas (Some ac) name = Inr False"
  by (simp add: conditionsHas_def)

lemma failed_scan_negative:
  "conditions ac = Some c
     \<Longrightarrow> entries c = None \<or> (\<exists>es e. entries c = Some es \<and> some_condition name es = Inl e)
     \<Longrightarrow> \<not> conditionsCollectionHas (Some ac) name"
  by (auto simp add: conditionsCollectionHas_def)

lemma probe_throw_origin:
  assumes "(probe, name) \<in> {(isBlinded, ''blinded''), (isDazzled, ''dazzled''),
                             (isDeafened, ''deafened''), (hasInvisible, ''invisible'')}"
    and "probe t = Inl e"
  shows "hasConditionMethod (actor t) name = Inl e \<or> conditionsHas (actor t) name = Inl e"
  using assms(2) unfolding probe_unfold [OF assms(1)]
  by (simp split: sum.splits)

text \<open>
  Claim C6, as the code has it. For each of \<open>isBlinded\<close>, \<open>isDazzled\<close> and \<open>isDeafened\<close>:
  when the two accessor paths that are host calls (the direct predicate and the membership
  test) return, the probe returns false if all four paths are negative, and true if any one
  path is positive, whatever the other paths give and whether or not the collection scan
  throws (a scan that throws counts as negative inside \<open>conditionsCollectionHas\<close>).
\<close>

theorem probe_is_disjunction:
  assumes "(probe, name) \<in> {(isBlinded, ''blinded''), (isDazzled, ''dazzled''),
                             (isDeafened, ''deafened'')}"
    and "hasConditionMethod (actor observer) name = Inr viaMethod"
    and "conditionsHas (actor observer) name = Inr viaHas"
  shows "(\<not> viaMethod \<and> \<not> systemConditionActive (actor observer) name \<and> \<not> viaHas
            \<and> \<not> conditionsCollectionHas (actor observer) name
          \<longrightarrow> probe observer = Inr False)
       \<and> (viaMethod \<or> systemConditionActive (actor observer) name \<or> viaHas
            \<or> conditionsCollectionHas (actor observer) name
          \<longrightarrow> probe observer = Inr True)"
proof -
  have "(probe, name) \<in> {(isBlinded, ''blinded''), (isDazzled, ''dazzled''),
                          (isDeafened, ''deafened''), (hasInvisible, ''invisible'')}"
    using assms(1) by auto
  from probe_unfold [OF this, of observer] assms(2,3) show ?thesis by auto
qed

text \<open>
  The membership test reports deafened while the scan throws on a null entry: the observer
  is deafened, and not blinded.
\<close>

theorem probe_is_disjunction_witness:
  "isDeafened (scene_token ((plain_actor ''a'')
      \<lparr>conditions := Some \<lparr>conditions_has = Some (reporting ''deafened''),
                            entries = Some [None]\<rparr>\<rparr>) ''t'' None) = Inr True
   \<and> isBlinded (scene_token ((plain_actor ''a'')
      \<lparr>conditions := Some \<lparr>conditions_has = Some (reporting ''deafened''),
                            entries = Some [None]\<rparr>\<rparr>) ''t'' None) = Inr False"
  using probe_is_disjunction [of isDeafened "''deafened''" "scene_token ((plain_actor ''a'')
      \<lparr>conditions := Some \<lparr>conditions_has = Some (reporting ''deafened''),
                            entries = Some [None]\<rparr>\<rparr>) ''t'' None" False True]
    probe_is_disjunction [of isBlinded "''blinded''" "scene_token ((plain_actor ''a'')
      \<lparr>conditions := Some \<lparr>conditions_has = Some (reporting ''deafened''),
                            entries = Some [None]\<rparr>\<rparr>) ''t'' None" False False]
  by (simp add: scene_token_def plain_actor_def reporting_def hasConditionMethod_def
        conditionsHas_def systemConditionActive_def conditionsCollectionHas_def)

text \<open>
  Claim C6 as stated fails: here the direct predicate reports dazzled and the membership
  test throws; \<open>isDazzled\<close> does not return true, it throws what the test threw.
\<close>

theorem probe_throws_counterexample:
  "hasConditionMethod (actor (scene_token ((plain_actor ''a'')
      \<lparr>hasCondition := Some (reporting ''dazzled''),
        conditions := Some \<lparr>conditions_has = Some throwing, entries = Some []\<rparr>\<rparr>) ''t'' None))
      ''dazzled'' = Inr True
   \<and> isDazzled (scene_token ((plain_actor ''a'')
      \<lparr>hasCondition := Some (reporting ''dazzled''),
        conditions := Some \<lparr>conditions_has = Some throwing, entries = Some []\<rparr>\<rparr>) ''t'' None)
      = Inl HostError"
  by (simp add: isDazzled_def scene_token_def plain_actor_def reporting_def throwing_def
        hasConditionMethod_def conditionsHas_def)

text \<open>
  Claim C7, as the code has it. Let the two host calls on the target return, and let
  \<open>invisible\<close> be the disjunction of the four strategies for the invisible condition. If
  \<open>invisible\<close> is false, \<open>isInvisibleTo\<close> returns false for every observer (the observer's
  senses are not read, so it does not matter whether reading them would throw). If it is
  true and the senses' membership test returns, \<open>isInvisibleTo\<close> returns false when that
  test reports see-invisibility, false when the test is absent or reports false and the
  nested senses field is truthy, and true when neither shape reports the sense. If it is
  true and the senses' membership test throws, \<open>isInvisibleTo\<close> throws what the test
  threw, whatever the nested senses field holds.
\<close>

theorem isInvisibleTo_cases:
  assumes "hasConditionMethod (actor target) ''invisible'' = Inr viaMethod"
    and "conditionsHas (actor target) ''invisible'' = Inr viaHas"
    and "invisible = (viaMethod \<or> systemConditionActive (actor target) ''invisible'' \<or> viaHas
                      \<or> conditionsCollectionHas (actor target) ''invisible'')"
  shows "(\<not> invisible \<longrightarrow> isInvisibleTo observer target = Inr False)
   \<and> (invisible \<and> sensesHas (actor observer) ''see-invisibility'' = Inr True
      \<longrightarrow> isInvisibleTo observer target = Inr False)
   \<and> (invisible \<and> sensesHas (actor observer) ''see-invisibility'' = Inr False
        \<and> systemSense (actor observer) ''see-invisibility''
      \<longrightarrow> isInvisibleTo observer target = Inr False)
   \<and> (invisible \<and> sensesHas (actor observer) ''see-invisibility'' = Inr False
        \<and> \<not> systemSense (actor observer) ''see-invisibility''
      \<longrightarrow> isInvisibleTo observer target = Inr True)
   \<and> (\<forall>e. invisible \<and> sensesHas (actor observer) ''see-invisibility'' = Inl e
      \<longrightarrow> isInvisibleTo observer target = Inl e)"
proof -
  have "hasInvisible target = Inr invisible"
    using assms by (simp add: hasInvisible_def)
  then show ?thesis
    by (cases invisible) (simp_all add: isInvisibleTo_def canSeeInvisible_def)
qed

lemma plain_lacks:
  "hasConditionMethod (actor plain_observer) ''invisible'' = Inr False"
  "conditionsHas (actor plain_observer) ''invisible'' = Inr False"
  "False = (False \<or> systemConditionActive (actor plain_observer) ''invisible'' \<or> False
             \<or> conditionsCollectionHas (actor plain_observer) ''invisible'')"
  by (simp_all add: plain_observer_def scene_token_def plain_actor_def
        hasConditionMethod_def conditionsHas_def systemConditionActive_def
        conditionsCollectionHas_def)

lemma invisible_by_method:
  "hasConditionMethod (actor (scene_token method_invisible_actor ''tgt'' None)) ''invisible''
     = Inr True"
  "conditionsHas (actor (scene_token method_invisible_actor ''tgt'' None)) ''invisible''
     = Inr False"
  "True = (True
      \<or> systemConditionActive (actor (scene_token method_invisible_actor ''tgt'' None))
           ''invisible''
      \<or> False
      \<or> conditionsCollectionHas (actor (scene_token method_invisible_actor ''tgt'' None))
           ''invisible'')"
  by (simp_all add: method_invisible_actor_def scene_token_def plain_actor_def reporting_def
        hasConditionMethod_def conditionsHas_def)

lemma invisible_by_flag:
  "hasConditionMethod (actor invisible_target) ''invisible'' = Inr False"
  "conditionsHas (actor invisible_target) ''invisible'' = Inr False"
  "True = (False \<or> systemConditionActive (actor invisible_target) ''invisible'' \<or> False
             \<or> conditionsCollectionHas (actor invisible_target) ''invisible'')"
  by (simp_all add: invisible_target_def ghost_actor_def scene_token_def plain_actor_def
        hasConditionMethod_def conditionsHas_def systemConditionActive_def
        conditionsCollectionHas_def)

lemma invisible_by_member:
  "hasConditionMethod (actor (scene_token member_invisible_actor ''tgt'' None)) ''invisible''
     = Inr False"
  "conditionsHas (actor (scene_token member_invisible_actor ''tgt'' None)) ''invisible''
     = Inr True"
  "True = (False
      \<or> systemConditionActive (actor (scene_token member_invisible_actor ''tgt'' None))
           ''invisible''
      \<or> True
      \<or> conditionsCollectionHas (actor (scene_token member_invisible_actor ''tgt'' None))
           ''invisible'')"
  by (simp_all add: member_invisible_actor_def scene_token_def plain_actor_def reporting_def
        hasConditionMethod_def conditionsHas_def)

lemma invisible_by_scan:
  "hasConditionMethod (actor (scene_token listed_invisible_actor ''tgt'' None)) ''invisible''
     = Inr False"
  "conditionsHas (actor (scene_token listed_invisible_actor ''tgt'' None)) ''invisible''
     = Inr False"
  "True = (False
      \<or> systemConditionActive (actor (scene_token listed_invisible_actor ''tgt'' None))
           ''invisible''
      \<or> False
      \<or> conditionsCollectionHas (actor (scene_token listed_invisible_actor ''tgt'' None))
           ''invisible'')"
  by (simp_all add: listed_invisible_actor_def scene_token_def plain_actor_def listed_def
        hasConditionMethod_def conditionsHas_def systemConditionActive_def
        conditionsCollectionHas_def)

lemma observer_senses:
  "sensesHas (actor seer_by_method) ''see-invisibility'' = Inr True"
  "sensesHas (actor seer_by_field) ''see-invisibility'' = Inr False"
  "systemSense (actor seer_by_field) ''see-invisibility''"
  "sensesHas (actor plain_observer) ''see-invisibility'' = Inr False"
  "\<not> systemSense (actor plain_observer) ''see-invisibility''"
  "sensesHas (actor seer_throwing) ''see-invisibility'' = Inl HostError"
  "systemSense (actor seer_throwing) ''see-invisibility''"
  by (simp_all add: sensesHas_def systemSense_def seer_by_method_def seer_by_field_def
        plain_observer_def seer_throwing_def scene_token_def plain_actor_def reporting_def
        throwing_def)

text \<open>
  A target without the condition is invisible to no one, not even to the observer whose
  senses would throw. A target invisible through any one of the four strategies is
  invisible to a plain observer; an invisible target is not invisible to either observer
  that has the sense; and with the observer whose membership test throws, the call throws.
\<close>

theorem isInvisibleTo_cases_witness:
  "isInvisibleTo seer_throwing plain_observer = Inr False
   \<and> isInvisibleTo plain_observer (scene_token method_invisible_actor ''tgt'' None) = Inr True
   \<and> isInvisibleTo plain_observer invisible_target = Inr True
   \<and> isInvisibleTo plain_observer (scene_token member_invisible_actor ''tgt'' None) = Inr True
   \<and> isInvisibleTo plain_observer (scene_token listed_invisible_actor ''tgt'' None) = Inr True
   \<and> isInvisibleTo seer_by_method invisible_target = Inr False
   \<and> isInvisibleTo seer_by_field invisible_target = Inr False
   \<and> isInvisibleTo seer_throwing invisible_target = Inl HostError"
proof -
  have a: "isInvisibleTo seer_throwing plain_observer = Inr False"
    using isInvisibleTo_cases [OF plain_lacks, of seer_throwing] by simp
  have b: "isInvisibleTo plain_observer (scene_token method_invisible_actor ''tgt'' None)
      = Inr True"
    using isInvisibleTo_cases [OF invisible_by_method, of plain_observer] observer_senses(4,5)
    by simp
  have c: "isInvisibleTo plain_observer invisible_target = Inr True"
    using isInvisibleTo_cases [OF invisible_by_flag, of plain_observer] observer_senses(4,5)
    by simp
  have d: "isInvisibleTo plain_observer (scene_token member_invisible_actor ''tgt'' None)
      = Inr True"
    using isInvisibleTo_cases [OF invisible_by_member, of plain_observer] observer_senses(4,5)
    by simp
  have e: "isInvisibleTo plain_observer (scene_token listed_invisible_actor ''tgt'' None)
      = Inr True"
    using isInvisibleTo_cases [OF invisible_by_scan, of plain_observer] observer_senses(4,5)
    by simp
  have f: "isInvisibleTo seer_by_method invisible_target = Inr False"
    using isInvisibleTo_cases [OF invisible_by_flag, of seer_by_method] observer_senses(1)
    by simp
  have g: "isInvisibleTo seer_by_field invisible_target = Inr False"
    using isInvisibleTo_cases [OF invisible_by_flag, of seer_by_field] observer_senses(2,3)
    by simp
  have h: "isInvisibleTo seer_throwing invisible_target = Inl HostError"
    using isInvisibleTo_cases [OF invisible_by_flag, of seer_throwing] observer_senses(6)
    by simp
  from a b c d e f g h show ?thesis by simp
qed

text \<open>
  Claim C7 as stated fails: the target is invisible and the nested senses field of the
  observer reports see-invisibility, so by the claim the result is false; the senses'
  membership test is called first, it throws, and \<open>isInvisibleTo\<close> throws.
\<close>

theorem senses_throw_counterexample:
  "hasInvisible invisible_target = Inr True
   \<and> systemSense (actor seer_throwing) ''see-invisibility''
   \<and> isInvisibleTo seer_throwing invisible_target = Inl HostError"
  by (simp add: isInvisibleTo_def canSeeInvisible_def hasInvisible_def sensesHas_def
        systemSense_def invisible_target_def ghost_actor_def seer_throwing_def scene_token_def
        plain_actor_def throwing_def hasConditionMethod_def conditionsHas_def
        systemConditionActive_def)

text \<open>
  Claim C8, as the code has it. For each of the four probes (for \<open>isInvisibleTo\<close>, its
  condition check \<open>hasInvisible\<close> on the target, and then \<open>isInvisibleTo\<close> itself): a
  missing actor makes the probe false; a missing direct predicate, a missing nested flag, a
  missing conditions collection, a missing membership test, and a conditions scan that
  cannot run or throws are each a negative result of that strategy alone, the probe being
  the disjunction of the others; for \<open>isInvisibleTo\<close> on an invisible target, an observer
  without actor, without senses' membership test or without nested senses field is a
  negative result of that sense shape alone. No probe propagates an exception of the scan:
  the only exceptions \<open>isBlinded\<close>, \<open>isDazzled\<close>, \<open>isDeafened\<close> and \<open>hasInvisible\<close>
  propagate are those thrown by the direct predicate or by the membership test, and the
  only ones \<open>isInvisibleTo\<close> propagates are those and the ones thrown by the membership
  test of the observer's senses.
\<close>

lemma missing_flag_negative:
  "system_conditions_active ac name = None \<Longrightarrow> \<not> systemConditionActive (Some ac) name"
  by (simp add: systemConditionActive_def)

lemma missing_collection_negative:
  assumes "conditions ac = None"
  shows "conditionsHas (Some ac) name = Inr False" "\<not> conditionsCollectionHas (Some ac) name"
  using assms by (simp_all add: conditionsHas_def conditionsCollectionHas_def)

lemma invisible_to_unfold:
  "hasInvisible t = Inr True
     \<Longrightarrow> isInvisibleTo observer t
           = (case sensesHas (actor observer) ''see-invisibility'' of
                Inl e \<Rightarrow> Inl e
              | Inr s \<Rightarrow> Inr (\<not> (s \<or> systemSense (actor observer) ''see-invisibility'')))"
  by (simp add: isInvisibleTo_def canSeeInvisible_def split: sum.splits)

lemma missing_senses_negative:
  "sensesHas None name = Inr False" "\<not> systemSense None name"
  "perception_senses_has oa = None \<Longrightarrow> sensesHas (Some oa) name = Inr False"
  "system_perception_senses oa name = None \<Longrightarrow> \<not> systemSense (Some oa) name"
  by (simp_all add: sensesHas_def systemSense_def)

lemma isInvisibleTo_throw_origin:
  assumes "isInvisibleTo observer t = Inl e"
  shows "hasConditionMethod (actor t) ''invisible'' = Inl e
       \<or> conditionsHas (actor t) ''invisible'' = Inl e
       \<or> sensesHas (actor observer) ''see-invisibility'' = Inl e"
proof (cases "hasInvisible t")
  case (Inl e')
  with assms have "e' = e" by (simp add: isInvisibleTo_def)
  with Inl have "hasInvisible t = Inl e" by simp
  with probe_throw_origin [of hasInvisible "''invisible''" t e] show ?thesis by blast
next
  case (Inr b)
  show ?thesis
  proof (cases b)
    case True
    with Inr have "hasInvisible t = Inr True" by simp
    from invisible_to_unfold [OF this, of observer] assms show ?thesis
      by (simp split: sum.splits)
  next
    case False
    with Inr assms show ?thesis by (simp add: isInvisibleTo_def)
  qed
qed

theorem probe_degrades:
  assumes "(probe, name) \<in> {(isBlinded, ''blinded''), (isDazzled, ''dazzled''),
                             (isDeafened, ''deafened''), (hasInvisible, ''invisible'')}"
  shows "(actor t = None \<longrightarrow> probe t = Inr False \<and> isInvisibleTo observer t = Inr False)
       \<and> (\<forall>ac h. actor t = Some ac \<and> hasCondition ac = None
             \<and> conditionsHas (actor t) name = Inr h
           \<longrightarrow> probe t = Inr (systemConditionActive (actor t) name \<or> h
                                \<or> conditionsCollectionHas (actor t) name))
       \<and> (\<forall>ac m h. actor t = Some ac \<and> system_conditions_active ac name = None
             \<and> hasConditionMethod (actor t) name = Inr m
             \<and> conditionsHas (actor t) name = Inr h
           \<longrightarrow> probe t = Inr (m \<or> h \<or> conditionsCollectionHas (actor t) name))
       \<and> (\<forall>ac m. actor t = Some ac \<and> conditions ac = None
             \<and> hasConditionMethod (actor t) name = Inr m
           \<longrightarrow> probe t = Inr (m \<or> systemConditionActive (actor t) name))
       \<and> (\<forall>ac c m. actor t = Some ac \<and> conditions ac = Some c \<and> conditions_has c = None
             \<and> hasConditionMethod (actor t) name = Inr m
           \<longrightarrow> probe t = Inr (m \<or> systemConditionActive (actor t) name
                                \<or> conditionsCollectionHas (actor t) name))
       \<and> (\<forall>ac c m h. actor t = Some ac \<and> conditions ac = Some c
             \<and> (entries c = None \<or> (\<exists>es e. entries c = Some es \<and> some_condition name es = Inl e))
             \<and> hasConditionMethod (actor t) name = Inr m
             \<and> conditionsHas (actor t) name = Inr h
           \<longrightarrow> probe t = Inr (m \<or> systemConditionActive (actor t) name \<or> h))
       \<and> (\<forall>e. probe t = Inl e
           \<longrightarrow> hasConditionMethod (actor t) name = Inl e
               \<or> conditionsHas (actor t) name = Inl e)
       \<and> (hasInvisible t = Inr False \<longrightarrow> isInvisibleTo observer t = Inr False)
       \<and> (hasInvisible t = Inr True \<and> actor observer = None
           \<longrightarrow> isInvisibleTo observer t = Inr True)
       \<and> (\<forall>oa. hasInvisible t = Inr True \<and> actor observer = Some oa
             \<and> perception_senses_has oa = None
           \<longrightarrow> isInvisibleTo observer t
                 = Inr (\<not> systemSense (actor observer) ''see-invisibility''))
       \<and> (\<forall>oa s. hasInvisible t = Inr True \<and> actor observer = Some oa
             \<and> system_perception_senses oa ''see-invisibility'' = None
             \<and> sensesHas (actor observer) ''see-invisibility'' = Inr s
           \<longrightarrow> isInvisibleTo observer t = Inr (\<not> s))
       \<and> (\<forall>e. isInvisibleTo observer t = Inl e
           \<longrightarrow> hasConditionMethod (actor t) ''invisible'' = Inl e
               \<or> conditionsHas (actor t) ''invisible'' = Inl e
               \<or> sensesHas (actor observer) ''see-invisibility'' = Inl e)"
proof -
  note unfold = probe_unfold [OF assms, of t]
  have no_actor: "actor t = None \<longrightarrow> probe t = Inr False \<and> isInvisibleTo observer t = Inr False"
  proof
    assume a: "actor t = None"
    have p: "probe t = Inr False"
      unfolding unfold by (simp add: a missing_actor_negative)
    have "hasInvisible t = Inr False"
      by (simp add: hasInvisible_def a missing_actor_negative)
    then have "isInvisibleTo observer t = Inr False"
      by (simp add: isInvisibleTo_def)
    with p show "probe t = Inr False \<and> isInvisibleTo observer t = Inr False" by simp
  qed
  have no_predicate: "\<forall>ac h. actor t = Some ac \<and> hasCondition ac = None
             \<and> conditionsHas (actor t) name = Inr h
           \<longrightarrow> probe t = Inr (systemConditionActive (actor t) name \<or> h
                                \<or> conditionsCollectionHas (actor t) name)"
  proof (intro allI impI)
    fix ac h
    assume h: "actor t = Some ac \<and> hasCondition ac = None
             \<and> conditionsHas (actor t) name = Inr h"
    then have m: "hasConditionMethod (actor t) name = Inr False"
      using missing_method_negative [of ac name] by simp
    from h have "conditionsHas (actor t) name = Inr h" by blast
    with m show "probe t = Inr (systemConditionActive (actor t) name \<or> h
                                \<or> conditionsCollectionHas (actor t) name)"
      unfolding unfold by simp
  qed
  have no_flag: "\<forall>ac m h. actor t = Some ac \<and> system_conditions_active ac name = None
             \<and> hasConditionMethod (actor t) name = Inr m
             \<and> conditionsHas (actor t) name = Inr h
           \<longrightarrow> probe t = Inr (m \<or> h \<or> conditionsCollectionHas (actor t) name)"
  proof (intro allI impI)
    fix ac m h
    assume h: "actor t = Some ac \<and> system_conditions_active ac name = None
             \<and> hasConditionMethod (actor t) name = Inr m
             \<and> conditionsHas (actor t) name = Inr h"
    then have f: "\<not> systemConditionActive (actor t) name"
      using missing_flag_negative [of ac name] by simp
    from h have "hasConditionMethod (actor t) name = Inr m"
      and "conditionsHas (actor t) name = Inr h" by blast+
    with f show "probe t = Inr (m \<or> h \<or> conditionsCollectionHas (actor t) name)"
      unfolding unfold by simp
  qed
  have no_collection: "\<forall>ac m. actor t = Some ac \<and> conditions ac = None
             \<and> hasConditionMethod (actor t) name = Inr m
           \<longrightarrow> probe t = Inr (m \<or> systemConditionActive (actor t) name)"
  proof (intro allI impI)
    fix ac m
    assume h: "actor t = Some ac \<and> conditions ac = None
             \<and> hasConditionMethod (actor t) name = Inr m"
    then have c: "conditionsHas (actor t) name = Inr False"
        "\<not> conditionsCollectionHas (actor t) name"
      using missing_collection_negative [of ac name] by simp_all
    from h have "hasConditionMethod (actor t) name = Inr m" by blast
    with c show "probe t = Inr (m \<or> systemConditionActive (actor t) name)"
      unfolding unfold by simp
  qed
  have no_member: "\<forall>ac c m. actor t = Some ac \<and> conditions ac = Some c \<and> conditions_has c = None
             \<and> hasConditionMethod (actor t) name = Inr m
           \<longrightarrow> probe t = Inr (m \<or> systemConditionActive (actor t) name
                                \<or> conditionsCollectionHas (actor t) name)"
  proof (intro allI impI)
    fix ac c m
    assume h: "actor t = Some ac \<and> conditions ac = Some c \<and> conditions_has c = None
             \<and> hasConditionMethod (actor t) name = Inr m"
    then have m: "conditionsHas (actor t) name = Inr False"
      using missing_has_negative [of ac c name] by simp
    from h have "hasConditionMethod (actor t) name = Inr m" by blast
    with m show "probe t = Inr (m \<or> systemConditionActive (actor t) name
                                \<or> conditionsCollectionHas (actor t) name)"
      unfolding unfold by simp
  qed
  have scan: "\<forall>ac c m h. actor t = Some ac \<and> conditions ac = Some c
             \<and> (entries c = None \<or> (\<exists>es e. entries c = Some es \<and> some_condition name es = Inl e))
             \<and> hasConditionMethod (actor t) name = Inr m
             \<and> conditionsHas (actor t) name = Inr h
           \<longrightarrow> probe t = Inr (m \<or> systemConditionActive (actor t) name \<or> h)"
  proof (intro allI impI)
    fix ac c m h
    assume h: "actor t = Some ac \<and> conditions ac = Some c
             \<and> (entries c = None \<or> (\<exists>es e. entries c = Some es \<and> some_condition name es = Inl e))
             \<and> hasConditionMethod (actor t) name = Inr m
             \<and> conditionsHas (actor t) name = Inr h"
    then have m: "\<not> conditionsCollectionHas (actor t) name"
      using failed_scan_negative [of ac c name] by simp
    from h have "hasConditionMethod (actor t) name = Inr m"
      and "conditionsHas (actor t) name = Inr h" by blast+
    with m show "probe t = Inr (m \<or> systemConditionActive (actor t) name \<or> h)"
      unfolding unfold by simp
  qed
  have throw: "\<forall>e. probe t = Inl e
           \<longrightarrow> hasConditionMethod (actor t) name = Inl e
               \<or> conditionsHas (actor t) name = Inl e"
    using probe_throw_origin [OF assms] by blast
  have lacks: "hasInvisible t = Inr False \<longrightarrow> isInvisibleTo observer t = Inr False"
    by (simp add: isInvisibleTo_def)
  have no_observer: "hasInvisible t = Inr True \<and> actor observer = None
           \<longrightarrow> isInvisibleTo observer t = Inr True"
  proof
    assume h: "hasInvisible t = Inr True \<and> actor observer = None"
    then have "hasInvisible t = Inr True" by blast
    from invisible_to_unfold [OF this, of observer] h
    show "isInvisibleTo observer t = Inr True"
      by (simp add: missing_senses_negative)
  qed
  have no_senses: "\<forall>oa. hasInvisible t = Inr True \<and> actor observer = Some oa
             \<and> perception_senses_has oa = None
           \<longrightarrow> isInvisibleTo observer t
                 = Inr (\<not> systemSense (actor observer) ''see-invisibility'')"
  proof (intro allI impI)
    fix oa
    assume h: "hasInvisible t = Inr True \<and> actor observer = Some oa
             \<and> perception_senses_has oa = None"
    then have s: "sensesHas (actor observer) ''see-invisibility'' = Inr False"
      using missing_senses_negative(3) [of oa "''see-invisibility''"] by simp
    from h have "hasInvisible t = Inr True" by blast
    from invisible_to_unfold [OF this, of observer] s
    show "isInvisibleTo observer t
                 = Inr (\<not> systemSense (actor observer) ''see-invisibility'')"
      by simp
  qed
  have no_sense_field: "\<forall>oa s. hasInvisible t = Inr True \<and> actor observer = Some oa
             \<and> system_perception_senses oa ''see-invisibility'' = None
             \<and> sensesHas (actor observer) ''see-invisibility'' = Inr s
           \<longrightarrow> isInvisibleTo observer t = Inr (\<not> s)"
  proof (intro allI impI)
    fix oa s
    assume h: "hasInvisible t = Inr True \<and> actor observer = Some oa
             \<and> system_perception_senses oa ''see-invisibility'' = None
             \<and> sensesHas (actor observer) ''see-invisibility'' = Inr s"
    then have f: "\<not> systemSense (actor observer) ''see-invisibility''"
      using missing_senses_negative(4) [of oa "''see-invisibility''"] by simp
    from h have "hasInvisible t = Inr True"
      and "sensesHas (actor observer) ''see-invisibility'' = Inr s" by blast+
    with invisible_to_unfold [of t observer] f
    show "isInvisibleTo observer t = Inr (\<not> s)" by simp
  qed
  have throw_to: "\<forall>e. isInvisibleTo observer t = Inl e
           \<longrightarrow> hasConditionMethod (actor t) ''invisible'' = Inl e
               \<or> conditionsHas (actor t) ''invisible'' = Inl e
               \<or> sensesHas (actor observer) ''see-invisibility'' = Inl e"
    using isInvisibleTo_throw_origin by blast
  show ?thesis
    by (intro conjI)
      (fact no_actor no_predicate no_flag no_collection no_member scan throw lacks
         no_observer no_senses no_sense_field throw_to)+
qed

text \<open>
  The scan of \<open>broken_scan_actor\<close> throws on its first, null entry; the probe still returns,
  true by the nested flag. The conditions object of \<open>scanless_actor\<close> cannot be scanned; it
  is deafened by the membership test, and not dazzled. An actor with a direct predicate and
  nothing else is invisible by it. A token without actor is not blinded and not invisible,
  and an observer without actor, or without any senses, does not see an invisible target.
\<close>

theorem probe_degrades_witness:
  "some_condition ''blinded'' [None, listed ''blinded''] = Inl TypeError
   \<and> isBlinded (scene_token broken_scan_actor ''t'' None) = Inr True
   \<and> isBlinded \<lparr>actor = None, document = None\<rparr> = Inr False
   \<and> isDeafened (scene_token scanless_actor ''t'' None) = Inr True
   \<and> isDazzled (scene_token scanless_actor ''t'' None) = Inr False
   \<and> hasInvisible (scene_token method_invisible_actor ''tgt'' None) = Inr True
   \<and> isInvisibleTo \<lparr>actor = None, document = None\<rparr> invisible_target = Inr True
   \<and> isInvisibleTo plain_observer invisible_target = Inr True
   \<and> isInvisibleTo plain_observer \<lparr>actor = None, document = None\<rparr> = Inr False"
proof -
  have blinded: "(isBlinded, ''blinded'') \<in> {(isBlinded, ''blinded''), (isDazzled, ''dazzled''),
         (isDeafened, ''deafened''), (hasInvisible, ''invisible'')}"
    and dazzled: "(isDazzled, ''dazzled'') \<in> {(isBlinded, ''blinded''), (isDazzled, ''dazzled''),
         (isDeafened, ''deafened''), (hasInvisible, ''invisible'')}"
    and deafened: "(isDeafened, ''deafened'') \<in> {(isBlinded, ''blinded''), (isDazzled, ''dazzled''),
         (isDeafened, ''deafened''), (hasInvisible, ''invisible'')}"
    and invisible: "(hasInvisible, ''invisible'') \<in> {(isBlinded, ''blinded''), (isDazzled, ''dazzled''),
         (isDeafened, ''deafened''), (hasInvisible, ''invisible'')}"
    by simp_all
  have thrown: "some_condition ''blinded'' [None, listed ''blinded''] = Inl TypeError"
    by simp
  have broken: "actor (scene_token broken_scan_actor ''t'' None) = Some broken_scan_actor
      \<and> conditions broken_scan_actor
          = Some \<lparr>conditions_has = None, entries = Some [None, listed ''blinded'']\<rparr>
      \<and> (entries \<lparr>conditions_has = None, entries = Some [None, listed ''blinded'']\<rparr> = None
          \<or> (\<exists>es e. entries \<lparr>conditions_has = None, entries = Some [None, listed ''blinded'']\<rparr>
                       = Some es \<and> some_condition ''blinded'' es = Inl e))
      \<and> hasConditionMethod (actor (scene_token broken_scan_actor ''t'' None)) ''blinded''
          = Inr False
      \<and> conditionsHas (actor (scene_token broken_scan_actor ''t'' None)) ''blinded''
          = Inr False"
    by (simp add: scene_token_def broken_scan_actor_def plain_actor_def
          hasConditionMethod_def conditionsHas_def)
  have broken_flag:
    "systemConditionActive (actor (scene_token broken_scan_actor ''t'' None)) ''blinded''"
    by (simp add: scene_token_def broken_scan_actor_def plain_actor_def
          systemConditionActive_def)
  have a: "isBlinded (scene_token broken_scan_actor ''t'' None) = Inr True"
    using probe_degrades [OF blinded, of "scene_token broken_scan_actor ''t'' None"
        plain_observer, THEN conjunct2, THEN conjunct2, THEN conjunct2, THEN conjunct2, THEN conjunct2, THEN conjunct1, rule_format, OF broken] broken_flag
    by simp
  have b: "isBlinded \<lparr>actor = None, document = None\<rparr> = Inr False"
    using probe_degrades [OF blinded, of "\<lparr>actor = None, document = None\<rparr>" plain_observer,
        THEN conjunct1]
    by simp
  have deaf: "actor (scene_token scanless_actor ''t'' None) = Some scanless_actor
      \<and> conditions scanless_actor
          = Some \<lparr>conditions_has = Some (reporting ''deafened''), entries = None\<rparr>
      \<and> (entries \<lparr>conditions_has = Some (reporting ''deafened''), entries = None\<rparr> = None
          \<or> (\<exists>es e. entries \<lparr>conditions_has = Some (reporting ''deafened''), entries = None\<rparr>
                       = Some es \<and> some_condition ''deafened'' es = Inl e))
      \<and> hasConditionMethod (actor (scene_token scanless_actor ''t'' None)) ''deafened''
          = Inr False
      \<and> conditionsHas (actor (scene_token scanless_actor ''t'' None)) ''deafened''
          = Inr True"
    by (simp add: scene_token_def scanless_actor_def plain_actor_def reporting_def
          hasConditionMethod_def conditionsHas_def)
  have c: "isDeafened (scene_token scanless_actor ''t'' None) = Inr True"
    using probe_degrades [OF deafened, of "scene_token scanless_actor ''t'' None"
        plain_observer, THEN conjunct2, THEN conjunct2, THEN conjunct2, THEN conjunct2, THEN conjunct2, THEN conjunct1, rule_format, OF deaf]
    by simp
  have daz: "actor (scene_token scanless_actor ''t'' None) = Some scanless_actor
      \<and> conditions scanless_actor
          = Some \<lparr>conditions_has = Some (reporting ''deafened''), entries = None\<rparr>
      \<and> (entries \<lparr>conditions_has = Some (reporting ''deafened''), entries = None\<rparr> = None
          \<or> (\<exists>es e. entries \<lparr>conditions_has = Some (reporting ''deafened''), entries = None\<rparr>
                       = Some es \<and> some_condition ''dazzled'' es = Inl e))
      \<and> hasConditionMethod (actor (scene_token scanless_actor ''t'' None)) ''dazzled''
          = Inr False
      \<and> conditionsHas (actor (scene_token scanless_actor ''t'' None)) ''dazzled''
          = Inr False"
    by (simp add: scene_token_def scanless_actor_def plain_actor_def reporting_def
          hasConditionMethod_def conditionsHas_def)
  have daz_flag:
    "\<not> systemConditionActive (actor (scene_token scanless_actor ''t'' None)) ''dazzled''"
    by (simp add: scene_token_def scanless_actor_def plain_actor_def
          systemConditionActive_def)
  have d: "isDazzled (scene_token scanless_actor ''t'' None) = Inr False"
    using probe_degrades [OF dazzled, of "scene_token scanless_actor ''t'' None"
        plain_observer, THEN conjunct2, THEN conjunct2, THEN conjunct2, THEN conjunct2, THEN conjunct2, THEN conjunct1, rule_format, OF daz] daz_flag
    by simp
  have bare: "actor (scene_token method_invisible_actor ''tgt'' None)
          = Some method_invisible_actor
      \<and> conditions method_invisible_actor = None
      \<and> hasConditionMethod (actor (scene_token method_invisible_actor ''tgt'' None))
            ''invisible'' = Inr True"
    by (simp add: scene_token_def method_invisible_actor_def plain_actor_def reporting_def
          hasConditionMethod_def)
  have e: "hasInvisible (scene_token method_invisible_actor ''tgt'' None) = Inr True"
    using probe_degrades [OF invisible, of "scene_token method_invisible_actor ''tgt'' None"
        plain_observer, THEN conjunct2, THEN conjunct2, THEN conjunct2, THEN conjunct1, rule_format, OF bare]
    by simp
  have target: "hasInvisible invisible_target = Inr True"
    by (simp add: hasInvisible_def invisible_target_def ghost_actor_def scene_token_def
          plain_actor_def hasConditionMethod_def conditionsHas_def systemConditionActive_def)
  have f: "isInvisibleTo \<lparr>actor = None, document = None\<rparr> invisible_target = Inr True"
    using probe_degrades [OF invisible, of invisible_target
        "\<lparr>actor = None, document = None\<rparr>", THEN conjunct2, THEN conjunct2, THEN conjunct2, THEN conjunct2, THEN conjunct2, THEN conjunct2, THEN conjunct2, THEN conjunct2, THEN conjunct1] target
    by simp
  have senseless: "hasInvisible invisible_target = Inr True
      \<and> actor plain_observer = Some (plain_actor ''watcher'')
      \<and> perception_senses_has (plain_actor ''watcher'') = None"
    using target by (simp add: plain_observer_def scene_token_def plain_actor_def)
  have no_field: "\<not> systemSense (actor plain_observer) ''see-invisibility''"
    by (simp add: systemSense_def plain_observer_def scene_token_def plain_actor_def)
  have g: "isInvisibleTo plain_observer invisible_target = Inr True"
    using probe_degrades [OF invisible, of invisible_target plain_observer,
        THEN conjunct2, THEN conjunct2, THEN conjunct2, THEN conjunct2, THEN conjunct2, THEN conjunct2, THEN conjunct2, THEN conjunct2, THEN conjunct2, THEN conjunct1, rule_format, OF senseless] no_field
    by simp
  have h: "isInvisibleTo plain_observer \<lparr>actor = None, document = None\<rparr> = Inr False"
    using probe_degrades [OF invisible, of "\<lparr>actor = None, document = None\<rparr>" plain_observer,
        THEN conjunct1]
    by simp
  from thrown a b c d e f g h show ?thesis by simp
qed

text \<open>
  Claim C8 as stated fails: a probe does propagate an exception. Here the direct predicate
  of the actor throws, and \<open>isBlinded\<close> throws with it.
\<close>

theorem probe_propagates_counterexample:
  "isBlinded (scene_token ((plain_actor ''a'') \<lparr>hasCondition := Some throwing\<rparr>) ''t'' None)
     = Inl HostError"
  by (simp add: isBlinded_def scene_token_def plain_actor_def throwing_def
        hasConditionMethod_def)

section \<open>The check of the change handler\<close>

text \<open>
  Claim C2 fails on the code: the handler's check \<open>hasInvisibility\<close> joins three accessors
  and has no scan of the conditions collection, which the probe's \<open>hasInvisible\<close> has. On
  an actor whose invisible condition shows in the collection only, the probe says invisible
  and the handler's check says not invisible.
\<close>

theorem hasInvisibility_misses_scan:
  "hasInvisible (scene_token listed_invisible_actor ''t'' None) = Inr True
   \<and> hasInvisibility listed_invisible_actor = Inr False"
  by (simp add: hasInvisible_def hasInvisibility_def scene_token_def listed_invisible_actor_def
        plain_actor_def listed_def hasConditionMethod_def conditionsHas_def
        systemConditionActive_def conditionsCollectionHas_def)

section \<open>The decision table of getInvisibilityState\<close>

lemma property_key_string [simp]: "property_key (IdString s) = s"
  by (simp add: property_key_def)

lemma document_id_Some [simp]:
  "document_id (Some \<lparr>actor = ta, document = Some \<lparr>doc_id = i, flags_invisibility = fl\<rparr>\<rparr>) = i"
  by (simp add: document_id_def)

text \<open>
  Claim C3. When observer and target both have a truthy document id and \<open>canSeeNormally\<close>
  is true, \<open>getInvisibilityState\<close> resolves to undetected if the sneak predicate resolves
  true and to hidden if it resolves false, whatever the target's stored flags \<open>fl\<close> are.
\<close>

theorem getInvisibilityState_sees_normally:
  assumes "truthy_id (document_id observer)"
    and "tid \<noteq> []"
    and "target = Some \<lparr>actor = ta, document = Some \<lparr>doc_id = IdString tid, flags_invisibility = fl\<rparr>\<rparr>"
    and "hasSneakOverride observer target = Inr sneaked"
  shows "snd (getInvisibilityState observer target hasSneakOverride True)
           = Inr (if sneaked then ''undetected'' else ''hidden'')"
  using assms by (simp add: getInvisibilityState_def sneakBranch_def truthy_id_def)

text \<open>
  With a flag stored for the observer and no sneak, the state is hidden; with no flags and a
  sneak, undetected.
\<close>

theorem getInvisibilityState_sees_normally_witness:
  "snd (getInvisibilityState (Some plain_observer)
          (Some (scene_token (plain_actor ''ghost'') ''tgt''
                   (Some [(''obs'', \<lparr>wasVisible = True\<rparr>)])))
          (sneak_resolves False) True) = Inr ''hidden''
   \<and> snd (getInvisibilityState (Some plain_observer)
          (Some (scene_token (plain_actor ''ghost'') ''tgt'' None))
          (sneak_resolves True) True) = Inr ''undetected''"
  using getInvisibilityState_sees_normally
      [of "Some plain_observer" "''tgt''" _ "Some (plain_actor ''ghost'')"
          "Some [(''obs'', \<lparr>wasVisible = True\<rparr>)]" "sneak_resolves False" False]
    getInvisibilityState_sees_normally
      [of "Some plain_observer" "''tgt''" _ "Some (plain_actor ''ghost'')"
          None "sneak_resolves True" True]
  by (simp add: scene_token_def plain_observer_def truthy_id_def sneak_resolves_def)

text \<open>
  Claim C4. When observer and target both have a truthy document id and \<open>canSeeNormally\<close>
  is false: if the target's flag record has the entry \<open>{wasVisible: true}\<close> under the
  observer's id, the state is hidden when the sneak predicate resolves false and undetected
  when it resolves true; if the record has no entry for the observer (or there is no
  record), the state is undetected.
\<close>

theorem getInvisibilityState_cannot_see:
  assumes "document_id observer = IdString oid" and "oid \<noteq> []" and "tid \<noteq> []"
    and "target = Some \<lparr>actor = ta, document = Some \<lparr>doc_id = IdString tid, flags_invisibility = fl\<rparr>\<rparr>"
    and "entry = (case fl of None \<Rightarrow> None | Some flags \<Rightarrow> map_of flags oid)"
  shows "(entry = Some \<lparr>wasVisible = True\<rparr> \<and> hasSneakOverride observer target = Inr False
            \<longrightarrow> snd (getInvisibilityState observer target hasSneakOverride False) = Inr ''hidden'')
       \<and> (entry = Some \<lparr>wasVisible = True\<rparr> \<and> hasSneakOverride observer target = Inr True
            \<longrightarrow> snd (getInvisibilityState observer target hasSneakOverride False) = Inr ''undetected'')
       \<and> (entry = None
            \<longrightarrow> snd (getInvisibilityState observer target hasSneakOverride False) = Inr ''undetected'')"
  using assms
  by (auto simp add: getInvisibilityState_def sneakBranch_def truthy_id_def
        wasVisibleWhenInvisible_def split: option.splits)

text \<open>
  The three rows at concrete tokens: a stored flag with and without sneak, and a record that
  names another observer only.
\<close>

theorem getInvisibilityState_cannot_see_witness:
  "snd (getInvisibilityState (Some plain_observer)
          (Some (scene_token (plain_actor ''ghost'') ''tgt''
                   (Some [(''obs'', \<lparr>wasVisible = True\<rparr>)])))
          (sneak_resolves False) False) = Inr ''hidden''
   \<and> snd (getInvisibilityState (Some plain_observer)
          (Some (scene_token (plain_actor ''ghost'') ''tgt''
                   (Some [(''obs'', \<lparr>wasVisible = True\<rparr>)])))
          (sneak_resolves True) False) = Inr ''undetected''
   \<and> snd (getInvisibilityState (Some plain_observer)
          (Some (scene_token (plain_actor ''ghost'') ''tgt''
                   (Some [(''other'', \<lparr>wasVisible = True\<rparr>)])))
          (sneak_resolves False) False) = Inr ''undetected''"
  using getInvisibilityState_cannot_see
      [of "Some plain_observer" "''obs''" "''tgt''" _ "Some (plain_actor ''ghost'')"
          "Some [(''obs'', \<lparr>wasVisible = True\<rparr>)]" "Some \<lparr>wasVisible = True\<rparr>"
          "sneak_resolves False"]
    getInvisibilityState_cannot_see
      [of "Some plain_observer" "''obs''" "''tgt''" _ "Some (plain_actor ''ghost'')"
          "Some [(''obs'', \<lparr>wasVisible = True\<rparr>)]" "Some \<lparr>wasVisible = True\<rparr>"
          "sneak_resolves True"]
    getInvisibilityState_cannot_see
      [of "Some plain_observer" "''obs''" "''tgt''" _ "Some (plain_actor ''ghost'')"
          "Some [(''other'', \<lparr>wasVisible = True\<rparr>)]" None
          "sneak_resolves False"]
  by (simp add: scene_token_def plain_observer_def sneak_resolves_def)

text \<open>
  Claim C5. If the observer or the target has no truthy document id (the reference is null,
  it has no document, or the id is missing or empty), \<open>getInvisibilityState\<close> resolves to
  undetected for every predicate and every \<open>canSeeNormally\<close>; it does not reject, and it
  makes no call to the predicate.
\<close>

theorem getInvisibilityState_missing_id:
  assumes "\<not> truthy_id (document_id observer) \<or> \<not> truthy_id (document_id target)"
  shows "getInvisibilityState observer target hasSneakOverride canSeeNormally
           = ([], Inr ''undetected'')"
  using assms by (auto simp add: getInvisibilityState_def Let_def)

text \<open>A null observer, and a target whose token has no document, with a rejecting predicate.\<close>

theorem getInvisibilityState_missing_id_witness:
  "getInvisibilityState None (Some invisible_target) sneak_rejects True
     = ([], Inr ''undetected'')
   \<and> getInvisibilityState (Some plain_observer)
        (Some \<lparr>actor = Some (plain_actor ''ghost''), document = None\<rparr>) sneak_rejects False
     = ([], Inr ''undetected'')"
  using getInvisibilityState_missing_id
      [of None "Some invisible_target" sneak_rejects True]
    getInvisibilityState_missing_id
      [of "Some plain_observer" "Some \<lparr>actor = Some (plain_actor ''ghost''), document = None\<rparr>"
          sneak_rejects False]
  by (simp add: document_id_def truthy_id_def)

text \<open>
  Claim C10. In the missing-identifier branch, and in the final default branch (both ids
  truthy, \<open>canSeeNormally\<close> false, no truthy \<open>wasVisible\<close> stored for the observer),
  \<open>getInvisibilityState\<close> makes no call to the sneak predicate, and its result is the same
  for any two predicates \<open>p\<close> and \<open>q\<close>.
\<close>

theorem getInvisibilityState_ignores_predicate:
  assumes "(\<not> truthy_id (document_id observer) \<or> \<not> truthy_id (document_id target))
         \<or> (truthy_id (document_id observer) \<and> truthy_id (document_id target)
              \<and> \<not> canSeeNormally
              \<and> \<not> wasVisibleWhenInvisible target (property_key (document_id observer)))"
  shows "fst (getInvisibilityState observer target p canSeeNormally) = []
       \<and> getInvisibilityState observer target p canSeeNormally
           = getInvisibilityState observer target q canSeeNormally"
  using assms by (auto simp add: getInvisibilityState_def Let_def)

text \<open>
  Both branches at concrete tokens, a rejecting predicate against one that resolves true.
\<close>

theorem getInvisibilityState_ignores_predicate_witness:
  "fst (getInvisibilityState (Some plain_observer) (Some invisible_target) sneak_rejects False)
     = []
   \<and> getInvisibilityState (Some plain_observer) (Some invisible_target) sneak_rejects False
       = getInvisibilityState (Some plain_observer) (Some invisible_target)
           (sneak_resolves True) False
   \<and> fst (getInvisibilityState (Some plain_observer) None sneak_rejects True) = []
   \<and> getInvisibilityState (Some plain_observer) None sneak_rejects True
       = getInvisibilityState (Some plain_observer) None (sneak_resolves True) True"
proof -
  have default: "truthy_id (document_id (Some plain_observer))
      \<and> truthy_id (document_id (Some invisible_target))
      \<and> \<not> False
      \<and> \<not> wasVisibleWhenInvisible (Some invisible_target)
            (property_key (document_id (Some plain_observer)))"
    by (simp add: plain_observer_def invisible_target_def scene_token_def truthy_id_def
          wasVisibleWhenInvisible_def)
  have missing: "\<not> truthy_id (document_id None)"
    by (simp add: document_id_def truthy_id_def)
  from default missing show ?thesis
    using getInvisibilityState_ignores_predicate
        [of "Some plain_observer" "Some invisible_target" False sneak_rejects
            "sneak_resolves True"]
      getInvisibilityState_ignores_predicate
        [of "Some plain_observer" None True sneak_rejects "sneak_resolves True"]
    by blast
qed

section \<open>The recording loop and the handler loop\<close>

lemma update_values:
  "snd ` set (AList.update k v al) \<subseteq> insert v (snd ` set al)"
  by (induction al) auto

lemma recordLoop_keys:
  assumes "\<forall>p\<in>set jts. actor (snd p) \<noteq> None \<longrightarrow> document (snd p) \<noteq> None"
  shows "\<exists>fl. recordLoop vm i jts acc = Inr fl
           \<and> fst ` set fl = fst ` set acc
               \<union> {k. recordable vm k \<and> (\<exists>p\<in>set jts. fst p \<noteq> i \<and> observer_key (snd p) = Some k)}
           \<and> snd ` set fl \<subseteq> insert \<lparr>wasVisible = True\<rparr> (snd ` set acc)"
  using assms
proof (induction jts arbitrary: acc)
  case Nil
  then show ?case by auto
next
  case (Cons p jts)
  obtain j t where p: "p = (j, t)" by (cases p)
  have rest: "\<forall>p\<in>set jts. actor (snd p) \<noteq> None \<longrightarrow> document (snd p) \<noteq> None"
    using Cons.prems by simp
  show ?case
  proof (cases "j = i \<or> actor t = None")
    case True
    then have skip: "recordLoop vm i (p # jts) acc = recordLoop vm i jts acc"
      by (auto simp add: p)
    from True have nokey: "\<not> (j \<noteq> i \<and> observer_key t = Some k)" for k
      by (auto simp add: observer_key_def)
    from Cons.IH [OF rest, of acc] obtain fl where
      fl: "recordLoop vm i jts acc = Inr fl"
        "fst ` set fl = fst ` set acc
               \<union> {k. recordable vm k \<and> (\<exists>p\<in>set jts. fst p \<noteq> i \<and> observer_key (snd p) = Some k)}"
        "snd ` set fl \<subseteq> insert \<lparr>wasVisible = True\<rparr> (snd ` set acc)"
      by blast
    have "{k. recordable vm k \<and> (\<exists>q\<in>set (p # jts). fst q \<noteq> i \<and> observer_key (snd q) = Some k)}
        = {k. recordable vm k \<and> (\<exists>q\<in>set jts. fst q \<noteq> i \<and> observer_key (snd q) = Some k)}"
      using nokey by (auto simp add: p)
    with fl skip show ?thesis by simp
  next
    case False
    then have live: "j \<noteq> i" "actor t \<noteq> None" by simp_all
    with Cons.prems obtain d where d: "document t = Some d" by (auto simp add: p)
    define k where "k = property_key (doc_id d)"
    have key: "observer_key t = Some k"
      using live d by (auto simp add: observer_key_def k_def)
    show ?thesis
    proof (cases "recordable vm k")
      case True
      then have step: "recordLoop vm i (p # jts) acc
          = recordLoop vm i jts (AList.update k \<lparr>wasVisible = True\<rparr> acc)"
        using live d by (auto simp add: p k_def recordable_def assign_property_def Let_def)
      from Cons.IH [OF rest, of "AList.update k \<lparr>wasVisible = True\<rparr> acc"] obtain fl where
        fl: "recordLoop vm i jts (AList.update k \<lparr>wasVisible = True\<rparr> acc) = Inr fl"
          "fst ` set fl = fst ` set (AList.update k \<lparr>wasVisible = True\<rparr> acc)
               \<union> {k. recordable vm k \<and> (\<exists>p\<in>set jts. fst p \<noteq> i \<and> observer_key (snd p) = Some k)}"
          "snd ` set fl \<subseteq> insert \<lparr>wasVisible = True\<rparr>
               (snd ` set (AList.update k \<lparr>wasVisible = True\<rparr> acc))"
        by blast
      have keys: "fst ` set fl = fst ` set acc
               \<union> {k. recordable vm k \<and> (\<exists>q\<in>set (p # jts). fst q \<noteq> i \<and> observer_key (snd q) = Some k)}"
        using fl(2) True key live by (auto simp add: p dom_update)
      have vals: "snd ` set fl \<subseteq> insert \<lparr>wasVisible = True\<rparr> (snd ` set acc)"
        using fl(3) update_values [of k "\<lparr>wasVisible = True\<rparr>" acc] by blast
      from step fl(1) keys vals show ?thesis by simp
    next
      case False
      then have step: "recordLoop vm i (p # jts) acc = recordLoop vm i jts acc"
        using live d by (auto simp add: p k_def recordable_def assign_property_def Let_def)
      from Cons.IH [OF rest, of acc] obtain fl where
        fl: "recordLoop vm i jts acc = Inr fl"
          "fst ` set fl = fst ` set acc
               \<union> {k. recordable vm k \<and> (\<exists>p\<in>set jts. fst p \<noteq> i \<and> observer_key (snd p) = Some k)}"
          "snd ` set fl \<subseteq> insert \<lparr>wasVisible = True\<rparr> (snd ` set acc)"
        by blast
      have "{k. recordable vm k \<and> (\<exists>q\<in>set (p # jts). fst q \<noteq> i \<and> observer_key (snd q) = Some k)}
          = {k. recordable vm k \<and> (\<exists>q\<in>set jts. fst q \<noteq> i \<and> observer_key (snd q) = Some k)}"
        using False key by (auto simp add: p)
      with fl step show ?thesis by simp
    qed
  qed
qed

lemma enumerate_keys:
  "(\<exists>p\<in>set (enumerate 0 ps). fst p \<noteq> i \<and> observer_key (snd p) = Some k)
     \<longleftrightarrow> (\<exists>j<length ps. j \<noteq> i \<and> observer_key (ps ! j) = Some k)"
proof
  assume "\<exists>p\<in>set (enumerate 0 ps). fst p \<noteq> i \<and> observer_key (snd p) = Some k"
  then show "\<exists>j<length ps. j \<noteq> i \<and> observer_key (ps ! j) = Some k"
    by (auto simp add: in_set_enumerate_eq)
next
  assume "\<exists>j<length ps. j \<noteq> i \<and> observer_key (ps ! j) = Some k"
  then obtain j where j: "j < length ps" "j \<noteq> i" "observer_key (ps ! j) = Some k"
    by blast
  then have "(j, ps ! j) \<in> set (enumerate 0 ps)"
    by (simp add: in_set_enumerate_eq)
  with j show "\<exists>p\<in>set (enumerate 0 ps). fst p \<noteq> i \<and> observer_key (snd p) = Some k"
    by force
qed

lemma recordLoop_scene:
  assumes "\<forall>t\<in>set ps. actor t \<noteq> None \<longrightarrow> document t \<noteq> None"
  shows "\<exists>fl. recordLoop vm i (enumerate 0 ps) [] = Inr fl
           \<and> fst ` set fl = seenKeys vm i ps
           \<and> snd ` set fl \<subseteq> {\<lparr>wasVisible = True\<rparr>}"
proof -
  have "\<forall>p\<in>set (enumerate 0 ps). actor (snd p) \<noteq> None \<longrightarrow> document (snd p) \<noteq> None"
    using assms by (auto simp add: in_set_enumerate_eq)
  from recordLoop_keys [OF this, of vm i "[]"] show ?thesis
    by (simp add: seenKeys_def enumerate_keys)
qed


lemma sameScene_refl: "sameScene ps ps"
  by (simp add: sameScene_def)

lemma sameScene_trans: "sameScene ps qs \<Longrightarrow> sameScene qs rs \<Longrightarrow> sameScene ps rs"
  by (simp add: sameScene_def)

lemma sameScene_observer_key:
  assumes "sameScene ps qs" and "j < length ps"
  shows "observer_key (qs ! j) = observer_key (ps ! j)"
proof -
  from assms have a: "actor (qs ! j) = actor (ps ! j)"
    and d: "map_option doc_id (document (qs ! j)) = map_option doc_id (document (ps ! j))"
    by (simp_all add: sameScene_def)
  show ?thesis
    using d by (auto simp add: observer_key_def a split: option.splits)
qed

lemma sameScene_seenKeys:
  assumes "sameScene ps qs"
  shows "seenKeys vm i qs = seenKeys vm i ps"
proof -
  have len: "length qs = length ps" using assms by (simp add: sameScene_def)
  show ?thesis
    unfolding seenKeys_def len
    using sameScene_observer_key [OF assms] by auto
qed

lemma sameScene_live_docs:
  assumes "sameScene ps qs" and "live_docs ps"
  shows "live_docs qs"
  unfolding live_docs_def
proof (intro ballI impI)
  fix t assume t: "t \<in> set qs" and live: "actor t \<noteq> None"
  from t obtain j where j: "j < length qs" "qs ! j = t" by (auto simp add: in_set_conv_nth)
  from assms(1) j have len: "j < length ps" by (simp add: sameScene_def)
  with assms(1) have a: "actor (qs ! j) = actor (ps ! j)"
    and d: "map_option doc_id (document (qs ! j)) = map_option doc_id (document (ps ! j))"
    by (simp_all add: sameScene_def)
  from len have "ps ! j \<in> set ps" by simp
  with assms(2) live a j have "document (ps ! j) \<noteq> None" by (auto simp add: live_docs_def)
  with d j show "document t \<noteq> None" by auto
qed

lemma sameScene_update_flags:
  assumes "i < length ps" and "document (ps ! i) = Some d"
  shows "sameScene ps (ps[i := (ps ! i)\<lparr>document := Some (d\<lparr>flags_invisibility := v\<rparr>)\<rparr>])"
  using assms by (auto simp add: sameScene_def nth_list_update)

lemma record_step:
  assumes i: "i < length (placeables c)"
    and live: "live_docs (placeables c)"
    and doc: "document (placeables c ! i) \<noteq> None"
  shows "\<exists>c'. recordVisibilityBeforeInvisibility g i c = Inr c'
           \<and> sameScene (placeables c) (placeables c')
           \<and> (\<forall>j<length (placeables c). j \<noteq> i \<longrightarrow> placeables c' ! j = placeables c ! j)
           \<and> (\<forall>j. j \<noteq> i \<longrightarrow> writes_to j c' = writes_to j c)
           \<and> recorded g c c' i"
proof -
  let ?vm = "g (placeables c ! i)"
  from live have "\<forall>t\<in>set (placeables c). actor t \<noteq> None \<longrightarrow> document t \<noteq> None"
    by (simp add: live_docs_def)
  from recordLoop_scene [OF this, of ?vm i] obtain fl where
    fl: "recordLoop ?vm i (enumerate 0 (placeables c)) [] = Inr fl"
      "fst ` set fl = seenKeys ?vm i (placeables c)"
      "snd ` set fl \<subseteq> {\<lparr>wasVisible = True\<rparr>}"
    by blast
  from doc obtain d where d: "document (placeables c ! i) = Some d" by blast
  show ?thesis
  proof (cases "fl = []")
    case True
    then have run: "recordVisibilityBeforeInvisibility g i c = Inr c"
      using i fl(1) by (simp add: recordVisibilityBeforeInvisibility_def)
    from True fl(2) have "seenKeys ?vm i (placeables c) = {}" by simp
    then have "recorded g c c i" by (simp add: recorded_def)
    with run show ?thesis by (simp add: sameScene_refl)
  next
    case False
    define c' where "c' = c\<lparr>placeables :=
                         (placeables c)[i :=
                            (placeables c ! i)
                              \<lparr>document := Some (d\<lparr>flags_invisibility := Some fl\<rparr>)\<rparr>],
                       flag_writes := flag_writes c @ [SetFlag i fl]\<rparr>"
    have run: "recordVisibilityBeforeInvisibility g i c = Inr c'"
      using False i fl(1) d
      by (simp add: recordVisibilityBeforeInvisibility_def setFlag_def c'_def)
    have scene: "sameScene (placeables c) (placeables c')"
      using sameScene_update_flags [OF i d] by (simp add: c'_def)
    have others: "\<forall>j<length (placeables c). j \<noteq> i \<longrightarrow> placeables c' ! j = placeables c ! j"
      by (simp add: c'_def)
    have writes: "\<forall>j. j \<noteq> i \<longrightarrow> writes_to j c' = writes_to j c"
      by (simp add: c'_def writes_to_def)
    from False have "set fl \<noteq> {}" by simp
    with fl(2) have nonempty: "seenKeys ?vm i (placeables c) \<noteq> {}" by auto
    have "document (placeables c' ! i) = Some (d\<lparr>flags_invisibility := Some fl\<rparr>)"
      using i by (simp add: c'_def)
    moreover have "writes_to i c' = writes_to i c @ [SetFlag i fl]"
      by (simp add: c'_def writes_to_def)
    ultimately have "recorded g c c' i"
      using nonempty fl(2,3) by (simp add: recorded_def)
    with run scene others writes show ?thesis by blast
  qed
qed


lemma recorded_later:
  assumes "recorded g c c1 i"
    and "placeables c' ! i = placeables c1 ! i" and "writes_to i c' = writes_to i c1"
  shows "recorded g c c' i"
  using assms
  by (cases "seenKeys (g (placeables c ! i)) i (placeables c) = {}")
    (simp_all add: recorded_def)

lemma recorded_earlier:
  assumes "recorded g c1 c' i"
    and "sameScene (placeables c) (placeables c1)"
    and "placeables c1 ! i = placeables c ! i" and "writes_to i c1 = writes_to i c"
  shows "recorded g c c' i"
  using assms(1) sameScene_seenKeys [OF assms(2), of "g (placeables c ! i)" i]
  by (cases "seenKeys (g (placeables c ! i)) i (placeables c) = {}")
    (simp_all add: recorded_def assms(3,4))

lemma record_loop_all:
  assumes inv: "hasInvisibility a = Inr True"
    and "distinct tokens"
    and "\<forall>i\<in>set tokens. i < length (placeables c) \<and> document (placeables c ! i) \<noteq> None"
    and "live_docs (placeables c)"
  shows "\<exists>c'. handleLoop g a tokens c = Inr c'
           \<and> sameScene (placeables c) (placeables c')
           \<and> (\<forall>j<length (placeables c). j \<notin> set tokens \<longrightarrow> placeables c' ! j = placeables c ! j)
           \<and> (\<forall>j. j \<notin> set tokens \<longrightarrow> writes_to j c' = writes_to j c)
           \<and> (\<forall>i\<in>set tokens. recorded g c c' i)"
  using assms(2-)
proof (induction tokens arbitrary: c)
  case Nil
  then show ?case by (simp add: sameScene_refl)
next
  case (Cons i tokens)
  from Cons.prems have i: "i < length (placeables c)" "document (placeables c ! i) \<noteq> None"
    and fresh: "i \<notin> set tokens" and dist: "distinct tokens"
    by simp_all
  from record_step [OF i(1) Cons.prems(3) i(2), of g] obtain c1 where
    c1: "recordVisibilityBeforeInvisibility g i c = Inr c1"
      "sameScene (placeables c) (placeables c1)"
      "\<forall>j<length (placeables c). j \<noteq> i \<longrightarrow> placeables c1 ! j = placeables c ! j"
      "\<forall>j. j \<noteq> i \<longrightarrow> writes_to j c1 = writes_to j c"
      "recorded g c c1 i"
    by blast
  have len: "length (placeables c1) = length (placeables c)"
    using c1(2) by (simp add: sameScene_def)
  have step: "handleLoop g a (i # tokens) c = handleLoop g a tokens c1"
    by (simp add: inv c1(1))
  have rest: "\<forall>j\<in>set tokens. j < length (placeables c1) \<and> document (placeables c1 ! j) \<noteq> None"
  proof
    fix j assume j: "j \<in> set tokens"
    with fresh have "j \<noteq> i" by auto
    moreover from j Cons.prems(2) have "j < length (placeables c)"
      "document (placeables c ! j) \<noteq> None" by simp_all
    ultimately show "j < length (placeables c1) \<and> document (placeables c1 ! j) \<noteq> None"
      using c1(3) len by simp
  qed
  have live1: "live_docs (placeables c1)"
    using sameScene_live_docs [OF c1(2) Cons.prems(3)] .
  from Cons.IH [OF dist rest live1] obtain c' where
    c': "handleLoop g a tokens c1 = Inr c'"
      "sameScene (placeables c1) (placeables c')"
      "\<forall>j<length (placeables c1). j \<notin> set tokens \<longrightarrow> placeables c' ! j = placeables c1 ! j"
      "\<forall>j. j \<notin> set tokens \<longrightarrow> writes_to j c' = writes_to j c1"
      "\<forall>k\<in>set tokens. recorded g c1 c' k"
    by blast
  have scene: "sameScene (placeables c) (placeables c')"
    using sameScene_trans [OF c1(2) c'(2)] .
  have others: "\<forall>j<length (placeables c). j \<notin> set (i # tokens)
      \<longrightarrow> placeables c' ! j = placeables c ! j"
    using c1(3) c'(3) len by simp
  have writes: "\<forall>j. j \<notin> set (i # tokens) \<longrightarrow> writes_to j c' = writes_to j c"
    using c1(4) c'(4) by simp
  have first: "recorded g c c' i"
    using recorded_later [OF c1(5)] c'(3,4) fresh i(1) len by simp
  have later: "\<forall>k\<in>set tokens. recorded g c c' k"
  proof
    fix k assume k: "k \<in> set tokens"
    with fresh have ne: "k \<noteq> i" by auto
    from k Cons.prems(2) have "k < length (placeables c)" by simp
    with ne c1(3,4) have "placeables c1 ! k = placeables c ! k" "writes_to k c1 = writes_to k c"
      by simp_all
    with recorded_earlier [OF _ c1(2)] c'(5) k show "recorded g c c' k" by blast
  qed
  from step c'(1) scene others writes first later show ?case by simp
qed

lemma clear_loop_all:
  assumes inv: "hasInvisibility a = Inr False"
    and "\<forall>i\<in>set tokens. i < length (placeables c) \<and> document (placeables c ! i) \<noteq> None"
  shows "\<exists>c'. handleLoop g a tokens c = Inr c'
           \<and> sameScene (placeables c) (placeables c')
           \<and> (\<forall>j<length (placeables c). j \<notin> set tokens \<longrightarrow> placeables c' ! j = placeables c ! j)
           \<and> (\<forall>i\<in>set tokens. \<exists>d. document (placeables c' ! i) = Some d
                  \<and> flags_invisibility d = None)"
  using assms(2)
proof (induction tokens arbitrary: c)
  case Nil
  then show ?case by (simp add: sameScene_refl)
next
  case (Cons i tokens)
  from Cons.prems have i: "i < length (placeables c)" by simp
  from Cons.prems obtain d where d: "document (placeables c ! i) = Some d" by auto
  define c1 where "c1 = c\<lparr>placeables :=
                         (placeables c)[i :=
                            (placeables c ! i)
                              \<lparr>document := Some (d\<lparr>flags_invisibility := None\<rparr>)\<rparr>],
                       flag_writes := flag_writes c @ [UnsetFlag i]\<rparr>"
  have step: "handleLoop g a (i # tokens) c = handleLoop g a tokens c1"
    using i d by (simp add: inv clearInvisibilityFlags_def unsetFlag_def c1_def)
  have scene1: "sameScene (placeables c) (placeables c1)"
    using sameScene_update_flags [OF i d] by (simp add: c1_def)
  have len: "length (placeables c1) = length (placeables c)" by (simp add: c1_def)
  have cleared: "document (placeables c1 ! i) = Some (d\<lparr>flags_invisibility := None\<rparr>)"
    using i by (simp add: c1_def)
  have same: "\<forall>j<length (placeables c). j \<noteq> i \<longrightarrow> placeables c1 ! j = placeables c ! j"
    by (simp add: c1_def)
  have rest: "\<forall>j\<in>set tokens. j < length (placeables c1) \<and> document (placeables c1 ! j) \<noteq> None"
  proof
    fix j assume "j \<in> set tokens"
    with Cons.prems have "j < length (placeables c)" "document (placeables c ! j) \<noteq> None"
      by simp_all
    then show "j < length (placeables c1) \<and> document (placeables c1 ! j) \<noteq> None"
      using same cleared len by (cases "j = i") simp_all
  qed
  from Cons.IH [OF rest] obtain c' where
    c': "handleLoop g a tokens c1 = Inr c'"
      "sameScene (placeables c1) (placeables c')"
      "\<forall>j<length (placeables c1). j \<notin> set tokens \<longrightarrow> placeables c' ! j = placeables c1 ! j"
      "\<forall>k\<in>set tokens. \<exists>d. document (placeables c' ! k) = Some d \<and> flags_invisibility d = None"
    by blast
  have scene: "sameScene (placeables c) (placeables c')"
    using sameScene_trans [OF scene1 c'(2)] .
  have others: "\<forall>j<length (placeables c). j \<notin> set (i # tokens)
      \<longrightarrow> placeables c' ! j = placeables c ! j"
    using same c'(3) len by simp
  have first: "\<exists>d. document (placeables c' ! i) = Some d \<and> flags_invisibility d = None"
  proof (cases "i \<in> set tokens")
    case True
    with c'(4) show ?thesis by blast
  next
    case False
    with c'(3) i len have "placeables c' ! i = placeables c1 ! i" by simp
    with cleared show ?thesis by simp
  qed
  from step c'(1) scene others first c'(4) show ?case by simp
qed

lemma boundTo_live: "boundTo a t \<Longrightarrow> actor t \<noteq> None"
  by (auto simp add: boundTo_def split: option.splits)

text \<open>An actor that the probe's four strategies find not invisible fails the handler's check.\<close>

lemma not_invisible_handler:
  assumes "hasInvisible \<lparr>actor = Some a, document = d\<rparr> = Inr False"
  shows "hasInvisibility a = Inr False"
proof -
  from assms obtain m h where
    m: "hasConditionMethod (Some a) ''invisible'' = Inr m"
    and h: "conditionsHas (Some a) ''invisible'' = Inr h"
    and none: "\<not> (m \<or> systemConditionActive (Some a) ''invisible'' \<or> h
                 \<or> conditionsCollectionHas (Some a) ''invisible'')"
    by (auto simp add: hasInvisible_def split: sum.splits)
  then show ?thesis by (simp add: hasInvisibility_def)
qed

text \<open>
  Claim C9. When the handler's check finds the actor not invisible (as it does, by
  \<open>not_invisible_handler\<close>, for every actor that none of the four strategies reports
  invisible) and each of the actor's tokens
  has a document, \<open>handleInvisibilityChange\<close> completes, and afterwards every token of
  the scene bound to the actor is still bound to it and has no invisibility namespace,
  whatever it held before; the other tokens are unchanged.
\<close>

theorem handleInvisibilityChange_clears:
  assumes "hasInvisibility a = Inr False"
    and "\<forall>t\<in>set (placeables c). boundTo a t \<longrightarrow> document t \<noteq> None"
  shows "\<exists>c'. handleInvisibilityChange getVisibilityMap a c = Inr c'
           \<and> length (placeables c') = length (placeables c)
           \<and> (\<forall>i<length (placeables c).
                 (boundTo a (placeables c ! i)
                    \<longrightarrow> boundTo a (placeables c' ! i)
                        \<and> (\<exists>d. document (placeables c' ! i) = Some d
                               \<and> flags_invisibility d = None))
               \<and> (\<not> boundTo a (placeables c ! i)
                    \<longrightarrow> placeables c' ! i = placeables c ! i))"
proof -
  let ?tokens = "filter (\<lambda>i. boundTo a (placeables c ! i)) [0..<length (placeables c)]"
  have ok: "\<forall>i\<in>set ?tokens. i < length (placeables c) \<and> document (placeables c ! i) \<noteq> None"
    using assms(2) by auto
  from clear_loop_all [OF assms(1) ok, of getVisibilityMap] obtain c' where
    c': "handleLoop getVisibilityMap a ?tokens c = Inr c'"
      "sameScene (placeables c) (placeables c')"
      "\<forall>j<length (placeables c). j \<notin> set ?tokens \<longrightarrow> placeables c' ! j = placeables c ! j"
      "\<forall>i\<in>set ?tokens. \<exists>d. document (placeables c' ! i) = Some d
          \<and> flags_invisibility d = None"
    by blast
  have run: "handleInvisibilityChange getVisibilityMap a c = Inr c'"
    using c'(1) by (simp add: handleInvisibilityChange_def)
  have len: "length (placeables c') = length (placeables c)"
    using c'(2) by (simp add: sameScene_def)
  have each: "\<forall>i<length (placeables c).
                 (boundTo a (placeables c ! i)
                    \<longrightarrow> boundTo a (placeables c' ! i)
                        \<and> (\<exists>d. document (placeables c' ! i) = Some d
                               \<and> flags_invisibility d = None))
               \<and> (\<not> boundTo a (placeables c ! i)
                    \<longrightarrow> placeables c' ! i = placeables c ! i)"
  proof (intro allI impI conjI)
    fix i assume i: "i < length (placeables c)" and b: "boundTo a (placeables c ! i)"
    from c'(2) i have "actor (placeables c' ! i) = actor (placeables c ! i)"
      by (simp add: sameScene_def)
    with b show "boundTo a (placeables c' ! i)" by (simp add: boundTo_def)
    from i b have "i \<in> set ?tokens" by simp
    with c'(4) show "\<exists>d. document (placeables c' ! i) = Some d \<and> flags_invisibility d = None"
      by blast
  next
    fix i assume i: "i < length (placeables c)" and b: "\<not> boundTo a (placeables c ! i)"
    then have "i \<notin> set ?tokens" by simp
    with c'(3) i show "placeables c' ! i = placeables c ! i" by blast
  qed
  from run len each show ?thesis by blast
qed

lemma observer_key_id:
  assumes "actor t \<noteq> None \<longrightarrow> (\<exists>d k. document t = Some d \<and> doc_id d = IdString k)"
  shows "observer_key t = Some k
           \<longleftrightarrow> actor t \<noteq> None \<and> document_id (Some t) = IdString k"
  using assms
  by (auto simp add: observer_key_def document_id_def property_key_def split: option.splits)

text \<open>
  Claim C1, as the code has it. Let the handler's check find the actor invisible, let every
  token of the scene with an actor have a document whose id is a string, and let token
  \<open>i\<close> be one of the actor's tokens. Let \<open>K\<close> be the ids, other than the name
  \<open>__proto__\<close>, of the other tokens with an actor whose state, read from the token's
  visibility map with a missing or empty entry counting as observed, is observed or
  concealed. Then \<open>handleInvisibilityChange\<close> completes; if \<open>K\<close> is empty, token \<open>i\<close> is
  left as it was and no call to the flag store is made on it; otherwise exactly one call is
  made on it, a set of a record whose keys are exactly \<open>K\<close> and whose entries all are
  \<open>{wasVisible: true}\<close>, and that record is the token's invisibility namespace afterwards.
\<close>

theorem handleInvisibilityChange_records:
  assumes "hasInvisibility a = Inr True"
    and "\<forall>t\<in>set (placeables c). actor t \<noteq> None
           \<longrightarrow> (\<exists>d k. document t = Some d \<and> doc_id d = IdString k)"
    and "i < length (placeables c)" and "boundTo a (placeables c ! i)"
    and "K = {k. k \<noteq> ''__proto__''
               \<and> (currentVisibility (getVisibilityMap (placeables c ! i)) k = ''observed''
                  \<or> currentVisibility (getVisibilityMap (placeables c ! i)) k = ''concealed'')
               \<and> (\<exists>j<length (placeables c). j \<noteq> i \<and> actor (placeables c ! j) \<noteq> None
                     \<and> document_id (Some (placeables c ! j)) = IdString k)}"
  shows "\<exists>c'. handleInvisibilityChange getVisibilityMap a c = Inr c'
           \<and> (if K = {}
               then placeables c' ! i = placeables c ! i \<and> writes_to i c' = writes_to i c
               else (\<exists>d fl. document (placeables c' ! i) = Some d
                       \<and> flags_invisibility d = Some fl
                       \<and> fst ` set fl = K
                       \<and> snd ` set fl \<subseteq> {\<lparr>wasVisible = True\<rparr>}
                       \<and> writes_to i c' = writes_to i c @ [SetFlag i fl]))"
proof -
  let ?tokens = "filter (\<lambda>i. boundTo a (placeables c ! i)) [0..<length (placeables c)]"
  have live: "live_docs (placeables c)"
    using assms(2) by (auto simp add: live_docs_def)
  have ok: "\<forall>i\<in>set ?tokens. i < length (placeables c) \<and> document (placeables c ! i) \<noteq> None"
  proof
    fix j assume "j \<in> set ?tokens"
    then have j: "j < length (placeables c)" "boundTo a (placeables c ! j)" by simp_all
    then have "placeables c ! j \<in> set (placeables c)" "actor (placeables c ! j) \<noteq> None"
      by (simp_all add: boundTo_live)
    with live j show "j < length (placeables c) \<and> document (placeables c ! j) \<noteq> None"
      by (simp add: live_docs_def)
  qed
  have "distinct ?tokens" by simp
  from record_loop_all [OF assms(1) this ok live, of getVisibilityMap] obtain c' where
    c': "handleLoop getVisibilityMap a ?tokens c = Inr c'"
      "\<forall>i\<in>set ?tokens. recorded getVisibilityMap c c' i"
    by blast
  have run: "handleInvisibilityChange getVisibilityMap a c = Inr c'"
    using c'(1) by (simp add: handleInvisibilityChange_def)
  from assms(3,4) have "i \<in> set ?tokens" by simp
  with c'(2) have rec: "recorded getVisibilityMap c c' i" by blast
  have key: "observer_key (placeables c ! j) = Some k
      \<longleftrightarrow> actor (placeables c ! j) \<noteq> None
          \<and> document_id (Some (placeables c ! j)) = IdString k"
    if "j < length (placeables c)" for j k
  proof -
    from that have "placeables c ! j \<in> set (placeables c)" by simp
    with assms(2) show ?thesis using observer_key_id by blast
  qed
  have K: "seenKeys (getVisibilityMap (placeables c ! i)) i (placeables c) = K"
    unfolding seenKeys_def recordable_def assms(5) using key by auto
  from rec have "if K = {}
               then placeables c' ! i = placeables c ! i \<and> writes_to i c' = writes_to i c
               else (\<exists>d fl. document (placeables c' ! i) = Some d
                       \<and> flags_invisibility d = Some fl
                       \<and> fst ` set fl = K
                       \<and> snd ` set fl \<subseteq> {\<lparr>wasVisible = True\<rparr>}
                       \<and> writes_to i c' = writes_to i c @ [SetFlag i fl])"
    unfolding recorded_def K .
  with run show ?thesis by blast
qed

lemma ghost_invisible: "hasInvisibility ghost_actor = Inr True"
  by (simp add: hasInvisibility_def ghost_actor_def plain_actor_def hasConditionMethod_def
        systemConditionActive_def)

lemma two_token_bound:
  "filter (\<lambda>i. boundTo ghost_actor (placeables two_token_scene ! i))
     [0..<length (placeables two_token_scene)] = [0]"
  by (simp add: two_token_scene_def boundTo_def invisible_target_def plain_observer_def
        scene_token_def ghost_actor_def plain_actor_def upt_rec)

lemma two_token_record:
  "recordVisibilityBeforeInvisibility no_visibility_map 0 two_token_scene
     = Inr \<lparr>placeables =
              [scene_token ghost_actor ''tgt'' (Some [(''obs'', \<lparr>wasVisible = True\<rparr>)]),
               plain_observer],
            flag_writes = [SetFlag 0 [(''obs'', \<lparr>wasVisible = True\<rparr>)]]\<rparr>"
  by (simp add: two_token_scene_def recordVisibilityBeforeInvisibility_def setFlag_def
        invisible_target_def plain_observer_def scene_token_def no_visibility_map_def
        currentVisibility_def property_key_def assign_property_def Let_def)

text \<open>
  Claim C1 as stated fails: the visibility map records no state for the observer, so by the
  claim no observer qualifies and nothing is written; the code reads the missing entry as
  observed and writes a record with the observer's key.
\<close>

theorem unrecorded_observer_counterexample:
  "no_visibility_map invisible_target ''obs'' = None
   \<and> handleInvisibilityChange no_visibility_map ghost_actor two_token_scene
       = Inr \<lparr>placeables =
                [scene_token ghost_actor ''tgt'' (Some [(''obs'', \<lparr>wasVisible = True\<rparr>)]),
                 plain_observer],
              flag_writes = [SetFlag 0 [(''obs'', \<lparr>wasVisible = True\<rparr>)]]\<rparr>"
  by (simp add: handleInvisibilityChange_def two_token_bound ghost_invisible two_token_record
        no_visibility_map_def)

lemma crowded_tokens:
  "length (placeables crowded_scene) = 6"
  "document_id (Some (placeables crowded_scene ! 1)) = IdString ''obs''"
  "document_id (Some (placeables crowded_scene ! 2)) = IdString ''hid''"
  "actor (placeables crowded_scene ! 3) = None"
  "document_id (Some (placeables crowded_scene ! 4)) = IdString ''dim''"
  "actor (placeables crowded_scene ! 1) \<noteq> None"
  "actor (placeables crowded_scene ! 4) \<noteq> None"
  "document_id (Some (placeables crowded_scene ! 5)) = IdString ''__proto__''"
  by (simp_all add: crowded_scene_def document_id_def scene_token_def plain_observer_def)

lemma mixed_visibility:
  "currentVisibility (mixed_map t) ''obs'' = ''observed''"
  "currentVisibility (mixed_map t) ''hid'' = ''hidden''"
  "currentVisibility (mixed_map t) ''dim'' = ''concealed''"
  by (simp_all add: mixed_map_def currentVisibility_def)

lemma crowded_keys:
  "{k. k \<noteq> ''__proto__''
       \<and> (currentVisibility (mixed_map (placeables crowded_scene ! 0)) k = ''observed''
         \<or> currentVisibility (mixed_map (placeables crowded_scene ! 0)) k = ''concealed'')
       \<and> (\<exists>j<length (placeables crowded_scene). j \<noteq> 0
             \<and> actor (placeables crowded_scene ! j) \<noteq> None
             \<and> document_id (Some (placeables crowded_scene ! j)) = IdString k)}
     = {''obs'', ''dim''}" (is "?K = _")
proof (intro set_eqI iffI)
  fix k assume "k \<in> ?K"
  then obtain j where proto: "k \<noteq> ''__proto__''"
    and v: "currentVisibility (mixed_map (placeables crowded_scene ! 0)) k = ''observed''
         \<or> currentVisibility (mixed_map (placeables crowded_scene ! 0)) k = ''concealed''"
    and j: "j < 6" "j \<noteq> 0" "actor (placeables crowded_scene ! j) \<noteq> None"
      "document_id (Some (placeables crowded_scene ! j)) = IdString k"
    unfolding mem_Collect_eq crowded_tokens(1) by blast
  from j(1,2) consider "j = 1" | "j = 2" | "j = 3" | "j = 4" | "j = 5" by linarith
  then show "k \<in> {''obs'', ''dim''}"
  proof cases
    case 1
    with j(4) crowded_tokens(2) show ?thesis by simp
  next
    case 2
    with j(4) crowded_tokens(3) have "k = ''hid''" by simp
    with v mixed_visibility(2) show ?thesis by simp
  next
    case 3
    with j(3) crowded_tokens(4) show ?thesis by simp
  next
    case 4
    with j(4) crowded_tokens(5) show ?thesis by simp
  next
    case 5
    with j(4) crowded_tokens(8) have "k = ''__proto__''" by simp
    with proto show ?thesis by simp
  qed
next
  fix k assume "k \<in> {''obs'', ''dim''}"
  then consider "k = ''obs''" | "k = ''dim''" by blast
  then show "k \<in> ?K"
  proof cases
    case 1
    have "(1::nat) < 6 \<and> (1::nat) \<noteq> 0 \<and> ''obs'' \<noteq> ''__proto__''" by simp
    with 1 crowded_tokens(2,6) mixed_visibility(1) show ?thesis
      unfolding mem_Collect_eq crowded_tokens(1) by blast
  next
    case 2
    have "(4::nat) < 6 \<and> (4::nat) \<noteq> 0 \<and> ''dim'' \<noteq> ''__proto__''" by simp
    with 2 crowded_tokens(5,7) mixed_visibility(3) show ?thesis
      unfolding mem_Collect_eq crowded_tokens(1) by blast
  qed
qed

lemma hidden_keys:
  "{k. k \<noteq> ''__proto__''
       \<and> (currentVisibility (hiding_map (placeables two_token_scene ! 0)) k = ''observed''
         \<or> currentVisibility (hiding_map (placeables two_token_scene ! 0)) k = ''concealed'')
       \<and> (\<exists>j<length (placeables two_token_scene). j \<noteq> 0
             \<and> actor (placeables two_token_scene ! j) \<noteq> None
             \<and> document_id (Some (placeables two_token_scene ! j)) = IdString k)}
     = {}" (is "?K = _")
proof -
  have len: "length (placeables two_token_scene) = 2"
    and obs: "document_id (Some (placeables two_token_scene ! 1)) = IdString ''obs''"
    by (simp_all add: two_token_scene_def document_id_def scene_token_def plain_observer_def)
  have hid: "currentVisibility (hiding_map t) ''obs'' = ''hidden''" for t
    by (simp add: hiding_map_def currentVisibility_def)
  have "k \<notin> ?K" for k
  proof
    assume "k \<in> ?K"
    then obtain j where v: "currentVisibility (hiding_map (placeables two_token_scene ! 0)) k = ''observed''
         \<or> currentVisibility (hiding_map (placeables two_token_scene ! 0)) k = ''concealed''"
      and j: "j < 2" "j \<noteq> 0"
        "document_id (Some (placeables two_token_scene ! j)) = IdString k"
      unfolding mem_Collect_eq len by blast
    from j(1,2) have "j = 1" by linarith
    with j(3) obs have "k = ''obs''" by simp
    with v hid show False by simp
  qed
  then show ?thesis by blast
qed

lemma proto_keys:
  "{k. k \<noteq> ''__proto__''
       \<and> (currentVisibility (no_visibility_map (placeables proto_scene ! 0)) k = ''observed''
         \<or> currentVisibility (no_visibility_map (placeables proto_scene ! 0)) k = ''concealed'')
       \<and> (\<exists>j<length (placeables proto_scene). j \<noteq> 0
             \<and> actor (placeables proto_scene ! j) \<noteq> None
             \<and> document_id (Some (placeables proto_scene ! j)) = IdString k)}
     = {}" (is "?K = _")
proof -
  have len: "length (placeables proto_scene) = 2"
    and imp: "document_id (Some (placeables proto_scene ! 1)) = IdString ''__proto__''"
    by (simp_all add: proto_scene_def document_id_def scene_token_def)
  have "k \<notin> ?K" for k
  proof
    assume "k \<in> ?K"
    then obtain j where proto: "k \<noteq> ''__proto__''"
      and j: "j < 2" "j \<noteq> 0"
        "document_id (Some (placeables proto_scene ! j)) = IdString k"
      unfolding mem_Collect_eq len by blast
    from j(1,2) have "j = 1" by linarith
    with j(3) imp have "k = ''__proto__''" by simp
    with proto show False by simp
  qed
  then show ?thesis by blast
qed

text \<open>
  The recording routine run on the scene whose only observer has the id \<open>__proto__\<close>, with
  nothing recorded for it: the state reads as observed, the assignment of line 247 creates
  no own key, and no call to the flag store is made.
\<close>

lemma proto_observer_not_written:
  "recordVisibilityBeforeInvisibility no_visibility_map 0 proto_scene = Inr proto_scene"
  by (simp add: proto_scene_def recordVisibilityBeforeInvisibility_def
        invisible_target_def scene_token_def no_visibility_map_def
        currentVisibility_def property_key_def assign_property_def Let_def)

text \<open>
  In the crowded scene the unrecorded observer and the one recorded as concealed are the
  keys; the hidden token, the token without actor and the token with the id \<open>__proto__\<close>
  are not. With the only observer recorded as hidden, nothing is written; nor is anything
  when the only observer has the id \<open>__proto__\<close>.
\<close>

theorem handleInvisibilityChange_records_witness:
  "(\<exists>c'. handleInvisibilityChange mixed_map ghost_actor crowded_scene = Inr c'
      \<and> (\<exists>d fl. document (placeables c' ! 0) = Some d \<and> flags_invisibility d = Some fl
            \<and> fst ` set fl = {''obs'', ''dim''}
            \<and> snd ` set fl \<subseteq> {\<lparr>wasVisible = True\<rparr>}
            \<and> writes_to 0 c' = [SetFlag 0 fl]))
   \<and> (\<exists>c'. handleInvisibilityChange hiding_map ghost_actor two_token_scene = Inr c'
      \<and> placeables c' ! 0 = invisible_target \<and> writes_to 0 c' = [])
   \<and> (\<exists>c'. handleInvisibilityChange no_visibility_map ghost_actor proto_scene = Inr c'
      \<and> placeables c' ! 0 = invisible_target \<and> writes_to 0 c' = [])"
proof -
  have docs: "\<forall>t\<in>set (placeables crowded_scene). actor t \<noteq> None
           \<longrightarrow> (\<exists>d k. document t = Some d \<and> doc_id d = IdString k)"
    by (simp add: crowded_scene_def invisible_target_def plain_observer_def scene_token_def)
  have bound: "0 < length (placeables crowded_scene)"
      "boundTo ghost_actor (placeables crowded_scene ! 0)"
    by (simp_all add: crowded_scene_def invisible_target_def scene_token_def boundTo_def)
  have none: "writes_to 0 crowded_scene = []"
    by (simp add: writes_to_def crowded_scene_def)
  have nonempty: "{''obs'', ''dim''} \<noteq> ({} :: string set)" by simp
  have first: "\<exists>c'. handleInvisibilityChange mixed_map ghost_actor crowded_scene = Inr c'
      \<and> (\<exists>d fl. document (placeables c' ! 0) = Some d \<and> flags_invisibility d = Some fl
            \<and> fst ` set fl = {''obs'', ''dim''}
            \<and> snd ` set fl \<subseteq> {\<lparr>wasVisible = True\<rparr>}
            \<and> writes_to 0 c' = [SetFlag 0 fl])"
    using handleInvisibilityChange_records
        [where a = ghost_actor and c = crowded_scene and i = 0
           and K = "{''obs'', ''dim''}" and getVisibilityMap = mixed_map,
         OF ghost_invisible docs bound crowded_keys [symmetric]] nonempty none
    by simp
  have docs2: "\<forall>t\<in>set (placeables two_token_scene). actor t \<noteq> None
           \<longrightarrow> (\<exists>d k. document t = Some d \<and> doc_id d = IdString k)"
    by (simp add: two_token_scene_def invisible_target_def plain_observer_def scene_token_def)
  have bound2: "0 < length (placeables two_token_scene)"
      "boundTo ghost_actor (placeables two_token_scene ! 0)"
    by (simp_all add: two_token_scene_def invisible_target_def scene_token_def boundTo_def)
  have start: "writes_to 0 two_token_scene = []"
      "placeables two_token_scene ! 0 = invisible_target"
    by (simp_all add: writes_to_def two_token_scene_def)
  have second: "\<exists>c'. handleInvisibilityChange hiding_map ghost_actor two_token_scene = Inr c'
      \<and> placeables c' ! 0 = invisible_target \<and> writes_to 0 c' = []"
    using handleInvisibilityChange_records
        [where a = ghost_actor and c = two_token_scene and i = 0
           and K = "{}" and getVisibilityMap = hiding_map,
         OF ghost_invisible docs2 bound2 hidden_keys [symmetric]] start
    by simp
  have docs3: "\<forall>t\<in>set (placeables proto_scene). actor t \<noteq> None
           \<longrightarrow> (\<exists>d k. document t = Some d \<and> doc_id d = IdString k)"
    by (simp add: proto_scene_def invisible_target_def scene_token_def)
  have bound3: "0 < length (placeables proto_scene)"
      "boundTo ghost_actor (placeables proto_scene ! 0)"
    by (simp_all add: proto_scene_def invisible_target_def scene_token_def boundTo_def)
  have start3: "writes_to 0 proto_scene = []" "placeables proto_scene ! 0 = invisible_target"
    by (simp_all add: writes_to_def proto_scene_def)
  have third: "\<exists>c'. handleInvisibilityChange no_visibility_map ghost_actor proto_scene = Inr c'
      \<and> placeables c' ! 0 = invisible_target \<and> writes_to 0 c' = []"
    using handleInvisibilityChange_records
        [where a = ghost_actor and c = proto_scene and i = 0
           and K = "{}" and getVisibilityMap = no_visibility_map,
         OF ghost_invisible docs3 bound3 proto_keys [symmetric]] start3
    by simp
  from first second third show ?thesis by blast
qed

lemma ghost_visible: "hasInvisibility (plain_actor ''ghost'') = Inr False"
  by (simp add: hasInvisibility_def plain_actor_def hasConditionMethod_def
        systemConditionActive_def conditionsHas_def)

text \<open>
  Both tokens of the actor lose their namespace (one had flags, one had none); the other
  actor's token keeps its flags.
\<close>

theorem handleInvisibilityChange_clears_witness:
  "\<exists>c'. handleInvisibilityChange no_visibility_map (plain_actor ''ghost'') flagged_scene = Inr c'
      \<and> (\<exists>d. document (placeables c' ! 0) = Some d \<and> flags_invisibility d = None)
      \<and> (\<exists>d. document (placeables c' ! 2) = Some d \<and> flags_invisibility d = None)
      \<and> placeables c' ! 1
          = scene_token (plain_actor ''watcher'') ''obs'' (Some [(''tgt'', \<lparr>wasVisible = True\<rparr>)])"
proof -
  have docs: "\<forall>t\<in>set (placeables flagged_scene). boundTo (plain_actor ''ghost'') t
                \<longrightarrow> document t \<noteq> None"
    by (simp add: flagged_scene_def scene_token_def)
  have len: "length (placeables flagged_scene) = 3"
    by (simp add: flagged_scene_def)
  have bound: "boundTo (plain_actor ''ghost'') (placeables flagged_scene ! 0)"
      "\<not> boundTo (plain_actor ''ghost'') (placeables flagged_scene ! 1)"
      "boundTo (plain_actor ''ghost'') (placeables flagged_scene ! 2)"
    by (simp_all add: flagged_scene_def scene_token_def boundTo_def plain_actor_def)
  have other: "placeables flagged_scene ! 1
      = scene_token (plain_actor ''watcher'') ''obs'' (Some [(''tgt'', \<lparr>wasVisible = True\<rparr>)])"
    by (simp add: flagged_scene_def)
  from handleInvisibilityChange_clears [OF ghost_visible docs, of no_visibility_map]
  obtain c' where
    run: "handleInvisibilityChange no_visibility_map (plain_actor ''ghost'') flagged_scene = Inr c'"
    and each: "\<forall>i<3.
                 (boundTo (plain_actor ''ghost'') (placeables flagged_scene ! i)
                    \<longrightarrow> boundTo (plain_actor ''ghost'') (placeables c' ! i)
                        \<and> (\<exists>d. document (placeables c' ! i) = Some d
                               \<and> flags_invisibility d = None))
               \<and> (\<not> boundTo (plain_actor ''ghost'') (placeables flagged_scene ! i)
                    \<longrightarrow> placeables c' ! i = placeables flagged_scene ! i)"
    unfolding len by blast
  from each [rule_format, of 0] bound(1)
  have a: "\<exists>d. document (placeables c' ! 0) = Some d \<and> flags_invisibility d = None" by simp
  from each [rule_format, of 2] bound(3)
  have b: "\<exists>d. document (placeables c' ! 2) = Some d \<and> flags_invisibility d = None" by simp
  from each [rule_format, of 1] bound(2) other
  have c: "placeables c' ! 1
      = scene_token (plain_actor ''watcher'') ''obs'' (Some [(''tgt'', \<lparr>wasVisible = True\<rparr>)])"
    by simp
  from run a b c show ?thesis by blast
qed

end
